theory Spec2Isabelle
  imports Complex_Main "HOL-Library.Char_ord" "HOL-Library.List_Lexorder"
begin

section \<open>The persistent store\<close>

text \<open>
  The backend keeps four SQLite tables. A table is the list of its rows in insertion
  (rowid) order. Column types follow the schema: \<open>TEXT\<close> is \<open>string\<close>, compared
  bytewise (the ISO-8601 timestamps the code writes are ordered that way),
  \<open>INTEGER\<close> is \<open>int\<close> and \<open>REAL\<close> is \<open>real\<close>. A JavaScript number is the
  real it denotes (every finite double is one); the arithmetic of the code on numbers
  rounds, and is modelled below. Quantities and their sums are integers far below
  \<open>2 ^ 53\<close>, where SQLite and JavaScript both have them exact.

  Whether the connection enforces the declared foreign keys is decided where the
  connection is opened, so it is a field of the store and every result below is
  stated for both settings.
\<close>

record product_row =
  p_id :: string
  p_name :: string
  p_description :: string
  p_price :: real
  p_sku :: string
  p_createdAt :: string

record product_image_row =
  pi_id :: string
  pi_productId :: string
  pi_url :: string
  pi_position :: int
  pi_createdAt :: string

record cart_row =
  c_id :: string
  c_session_id :: string
  c_created_at :: string
  c_updated_at :: string

record cart_item_row =
  ci_id :: string
  ci_cart_id :: string
  ci_product_id :: string
  ci_quantity :: int
  ci_created_at :: string
  ci_updated_at :: string

record database =
  products :: "product_row list"
  product_images :: "product_image_row list"
  carts :: "cart_row list"
  cart_items :: "cart_item_row list"
  foreign_keys :: bool

text \<open>A statement that violates a constraint of the schema throws; the row is not written.\<close>

datatype sql_error =
  SQLITE_CONSTRAINT_PRIMARYKEY
  | SQLITE_CONSTRAINT_FOREIGNKEY
  | SQLITE_CONSTRAINT_UNIQUE

section \<open>The cart service\<close>

text \<open>
  \<open>randomUUID()\<close> and \<open>new Date().toISOString()\<close> are inputs of the model: every
  operation that calls them takes the values they returned (\<open>uuid\<close>, \<open>now\<close>).
\<close>

record product_json =
  pj_id :: "string option"
  pj_name :: "string option"
  pj_description :: "string option"
  pj_price :: "real option"
  pj_sku :: "string option"
  pj_imageUrl :: "string option"

record cart_item_json =
  ij_id :: string
  ij_cartId :: string
  ij_productId :: "string option"
  ij_quantity :: int
  ij_createdAt :: string
  ij_updatedAt :: string
  ij_product :: product_json

record cart_json =
  cj_id :: string
  cj_sessionId :: string
  cj_createdAt :: string
  cj_updatedAt :: string
  cj_items :: "cart_item_json list"
  cj_totalItems :: int
  cj_totalPrice :: real

definition createCart ::
  "database \<Rightarrow> string \<Rightarrow> string \<Rightarrow> string \<Rightarrow> (sql_error + cart_json) \<times> database" where
  "createCart db uuid now sessionId =
     (if uuid \<in> set (map c_id (carts db)) then (Inl SQLITE_CONSTRAINT_PRIMARYKEY, db)
      else
        (Inr \<lparr>cj_id = uuid, cj_sessionId = sessionId, cj_createdAt = now, cj_updatedAt = now,
              cj_items = [], cj_totalItems = 0, cj_totalPrice = 0\<rparr>,
         db\<lparr>carts := carts db @
              [\<lparr>c_id = uuid, c_session_id = sessionId, c_created_at = now, c_updated_at = now\<rparr>]\<rparr>))"

text \<open>
  \<open>addToCart\<close>: look the (cart, product) pair up; when a row exists, add the quantity to
  every row with that row's id and answer the row read before with the new quantity;
  otherwise insert a row under a fresh id. The insert is the only statement that can
  throw: on an id already used, or, when foreign keys are enforced, on a cart or
  product that does not exist.
\<close>

definition addToCart ::
  "database \<Rightarrow> string \<Rightarrow> string \<Rightarrow> string \<Rightarrow> string \<Rightarrow> int
     \<Rightarrow> (sql_error + cart_item_row) \<times> database" where
  "addToCart db uuid now cartId productId quantity =
     (case find (\<lambda>r. ci_cart_id r = cartId \<and> ci_product_id r = productId) (cart_items db) of
        Some existingItem \<Rightarrow>
          (Inr (existingItem\<lparr>ci_quantity := ci_quantity existingItem + quantity\<rparr>),
           db\<lparr>cart_items :=
                map (\<lambda>r. if ci_id r = ci_id existingItem
                          then r\<lparr>ci_quantity := ci_quantity r + quantity, ci_updated_at := now\<rparr>
                          else r)
                    (cart_items db)\<rparr>)
      | None \<Rightarrow>
          (if uuid \<in> set (map ci_id (cart_items db)) then (Inl SQLITE_CONSTRAINT_PRIMARYKEY, db)
           else if foreign_keys db
                   \<and> (cartId \<notin> set (map c_id (carts db)) \<or> productId \<notin> set (map p_id (products db)))
           then (Inl SQLITE_CONSTRAINT_FOREIGNKEY, db)
           else
             (let row = \<lparr>ci_id = uuid, ci_cart_id = cartId, ci_product_id = productId,
                         ci_quantity = quantity, ci_created_at = now, ci_updated_at = now\<rparr>
              in (Inr row, db\<lparr>cart_items := cart_items db @ [row]\<rparr>))))"

definition updateCartItem ::
  "database \<Rightarrow> string \<Rightarrow> string \<Rightarrow> int \<Rightarrow> cart_item_row option \<times> database" where
  "updateCartItem db now itemId quantity =
     (let db' = db\<lparr>cart_items :=
                  map (\<lambda>r. if ci_id r = itemId
                            then r\<lparr>ci_quantity := quantity, ci_updated_at := now\<rparr>
                            else r)
                      (cart_items db)\<rparr>
      in (find (\<lambda>r. ci_id r = itemId) (cart_items db'), db'))"

definition removeFromCart :: "database \<Rightarrow> string \<Rightarrow> bool \<times> database" where
  "removeFromCart db itemId =
     (True, db\<lparr>cart_items := filter (\<lambda>r. ci_id r \<noteq> itemId) (cart_items db)\<rparr>)"

definition clearCart :: "database \<Rightarrow> string \<Rightarrow> bool \<times> database" where
  "clearCart db cartId =
     (True, db\<lparr>cart_items := filter (\<lambda>r. ci_cart_id r \<noteq> cartId) (cart_items db)\<rparr>)"

text \<open>
  \<open>findCartBySessionId\<close> and \<open>getCartWithItems\<close> order rows with \<open>ORDER BY\<close>. The
  order is modelled by a stable insertion sort on the comparison of the clause; rows
  that compare equal keep the order of the scan.
\<close>

fun insort_by :: "('a \<Rightarrow> 'a \<Rightarrow> bool) \<Rightarrow> 'a \<Rightarrow> 'a list \<Rightarrow> 'a list" where
  "insort_by le x [] = [x]"
| "insort_by le x (y # ys) = (if le x y then x # y # ys else y # insort_by le x ys)"

definition order_by :: "('a \<Rightarrow> 'a \<Rightarrow> bool) \<Rightarrow> 'a list \<Rightarrow> 'a list" where
  "order_by le xs = foldr (insort_by le) xs []"

definition findCartBySessionId :: "database \<Rightarrow> string \<Rightarrow> cart_row option" where
  "findCartBySessionId db sessionId =
     (case order_by (\<lambda>a b. c_created_at b \<le> c_created_at a)
             (filter (\<lambda>c. c_session_id c = sessionId) (carts db)) of
        [] \<Rightarrow> None
      | c # _ \<Rightarrow> Some c)"

text \<open>
  A row of the three-table join of \<open>getCartWithItems\<close>: the cart columns, the columns
  of \<open>cart_items\<close> (all \<open>NULL\<close> when the \<open>LEFT JOIN\<close> found no item), the columns of
  \<open>products\<close> (all \<open>NULL\<close> when it found no product) and the sub-select \<open>image_url\<close>.
\<close>

record join_row =
  jr_cart :: cart_row
  jr_item :: "cart_item_row option"
  jr_product :: "product_row option"
  jr_image_url :: "string option"

definition image_before :: "product_image_row \<Rightarrow> product_image_row \<Rightarrow> bool" where
  "image_before a b \<longleftrightarrow>
     pi_position a < pi_position b
     \<or> (pi_position a = pi_position b \<and> pi_createdAt a \<le> pi_createdAt b)"

definition first_image_url :: "database \<Rightarrow> string \<Rightarrow> string option" where
  "first_image_url db productId =
     (case order_by image_before (filter (\<lambda>i. pi_productId i = productId) (product_images db)) of
        [] \<Rightarrow> None
      | i # _ \<Rightarrow> Some (pi_url i))"

definition join_products :: "database \<Rightarrow> cart_row \<Rightarrow> cart_item_row \<Rightarrow> join_row list" where
  "join_products db c ci =
     (case filter (\<lambda>p. p_id p = ci_product_id ci) (products db) of
        [] \<Rightarrow> [\<lparr>jr_cart = c, jr_item = Some ci, jr_product = None, jr_image_url = None\<rparr>]
      | ps \<Rightarrow> map (\<lambda>p. \<lparr>jr_cart = c, jr_item = Some ci, jr_product = Some p,
                       jr_image_url = first_image_url db (p_id p)\<rparr>) ps)"

definition join_items :: "database \<Rightarrow> cart_row \<Rightarrow> join_row list" where
  "join_items db c =
     (case filter (\<lambda>ci. ci_cart_id ci = c_id c) (cart_items db) of
        [] \<Rightarrow> [\<lparr>jr_cart = c, jr_item = None, jr_product = None, jr_image_url = None\<rparr>]
      | rows \<Rightarrow> concat (map (join_products db c) rows))"

text \<open>
  \<open>ORDER BY c.created_at DESC, ci.created_at ASC\<close>; a \<open>NULL\<close> sorts before every
  value in ascending order.
\<close>

definition null_le :: "string option \<Rightarrow> string option \<Rightarrow> bool" where
  "null_le a b = (case a of None \<Rightarrow> True | Some x \<Rightarrow> (case b of None \<Rightarrow> False | Some y \<Rightarrow> x \<le> y))"

definition row_before :: "join_row \<Rightarrow> join_row \<Rightarrow> bool" where
  "row_before r s \<longleftrightarrow>
     c_created_at (jr_cart s) < c_created_at (jr_cart r)
     \<or> (c_created_at (jr_cart s) = c_created_at (jr_cart r)
        \<and> null_le (map_option ci_created_at (jr_item r)) (map_option ci_created_at (jr_item s)))"

definition cart_rows :: "database \<Rightarrow> string \<Rightarrow> join_row list" where
  "cart_rows db sessionId =
     order_by row_before
       (concat (map (join_items db) (filter (\<lambda>c. c_session_id c = sessionId) (carts db))))"

text \<open>\<open>r.item_id\<close> is truthy: not \<open>NULL\<close> and not the empty string.\<close>

definition has_item :: "join_row \<Rightarrow> bool" where
  "has_item r = (case jr_item r of None \<Rightarrow> False | Some ci \<Rightarrow> ci_id ci \<noteq> [])"

definition row_item :: "join_row \<Rightarrow> cart_item_row \<Rightarrow> cart_item_json" where
  "row_item r ci =
     \<lparr>ij_id = ci_id ci,
      ij_cartId = c_id (jr_cart r),
      ij_productId = map_option p_id (jr_product r),
      ij_quantity = ci_quantity ci,
      ij_createdAt = ci_created_at ci,
      ij_updatedAt = ci_updated_at ci,
      ij_product =
        \<lparr>pj_id = map_option p_id (jr_product r),
         pj_name = map_option p_name (jr_product r),
         pj_description = map_option p_description (jr_product r),
         pj_price = map_option p_price (jr_product r),
         pj_sku = map_option p_sku (jr_product r),
         pj_imageUrl = jr_image_url r\<rparr>\<rparr>"

definition row_items :: "join_row list \<Rightarrow> cart_item_json list" where
  "row_items rows =
     concat (map (\<lambda>r. case jr_item r of None \<Rightarrow> [] | Some ci \<Rightarrow> [row_item r ci])
                 (filter has_item rows))"

text \<open>
  The arithmetic of JavaScript numbers. \<open>to_double\<close> rounds a real to the nearest
  double (53 significant bits, exponent not below that of the subnormals, ties to the
  even significand); \<open>+\<close> and \<open>*\<close> of two numbers are the exact result rounded.
  Overflow to an infinity, the sign of zero and \<open>NaN\<close> are left out: the numbers
  here are prices, quantities and their sums.
\<close>

function bit_length :: "int \<Rightarrow> int" where
  "bit_length n = (if n \<le> 0 then 0 else 1 + bit_length (n div 2))"
  by pat_completeness auto
termination
  by (relation "measure nat") auto

declare bit_length.simps [simp del]

text \<open>The exponent \<open>k\<close> with \<open>2 ^ k \<le> \<bar>x\<bar> < 2 ^ (k + 1)\<close>, for \<open>x\<close> other than 0.\<close>

definition binade :: "real \<Rightarrow> int" where
  "binade x =
     (if 1 \<le> \<bar>x\<bar> then bit_length \<lfloor>\<bar>x\<bar>\<rfloor> - 1
      else - bit_length (\<lceil>1 / \<bar>x\<bar>\<rceil> - 1))"

definition scale2 :: "real \<Rightarrow> int \<Rightarrow> real" where
  "scale2 x e = (if 0 \<le> e then x * 2 ^ nat e else x / 2 ^ nat (- e))"

definition round_half_even :: "real \<Rightarrow> int" where
  "round_half_even x =
     (let n = \<lfloor>x\<rfloor>; d = x - real_of_int n
      in if d < 1 / 2 then n else if 1 / 2 < d then n + 1 else if even n then n else n + 1)"

definition to_double :: "real \<Rightarrow> real" where
  "to_double x =
     (if x = 0 then 0
      else (let e = max (binade x - 52) (- 1074)
            in scale2 (real_of_int (round_half_even (scale2 x (- e)))) e))"

definition js_add :: "real \<Rightarrow> real \<Rightarrow> real" where
  "js_add a b = to_double (a + b)"

definition js_mul :: "real \<Rightarrow> real \<Rightarrow> real" where
  "js_mul a b = to_double (a * b)"

text \<open>An \<open>INTEGER\<close> column read into a JavaScript number.\<close>

definition number_of_int :: "int \<Rightarrow> real" where
  "number_of_int n = to_double (real_of_int n)"

text \<open>A sum as the code adds it: from 0, left to right, each partial sum rounded.\<close>

definition js_sum :: "real list \<Rightarrow> real" where
  "js_sum xs = foldl js_add 0 xs"

text \<open>
  The price of an item in \<open>it.product.price * it.quantity\<close>: a \<open>null\<close> price (no
  product row) multiplies as 0.
\<close>

definition item_price :: "cart_item_json \<Rightarrow> real" where
  "item_price it = (case pj_price (ij_product it) of None \<Rightarrow> 0 | Some p \<Rightarrow> p)"

definition getCartWithItems :: "database \<Rightarrow> string \<Rightarrow> cart_json option" where
  "getCartWithItems db sessionId =
     (case cart_rows db sessionId of
        [] \<Rightarrow> None
      | base # rest \<Rightarrow>
          (let items = row_items (base # rest)
           in Some \<lparr>cj_id = c_id (jr_cart base),
                    cj_sessionId = c_session_id (jr_cart base),
                    cj_createdAt = c_created_at (jr_cart base),
                    cj_updatedAt = c_updated_at (jr_cart base),
                    cj_items = items,
                    cj_totalItems = foldl (\<lambda>sum it. sum + ij_quantity it) 0 items,
                    cj_totalPrice =
                      foldl (\<lambda>sum it.
                               js_add sum (js_mul (item_price it) (number_of_int (ij_quantity it))))
                            0 items\<rparr>))"

text \<open>The state after one call of the cart service; the two reads write nothing.\<close>

datatype cart_call =
  CreateCart string
  | FindCartBySessionId string
  | GetCartWithItems string
  | AddToCart string string int
  | UpdateCartItem string int
  | RemoveFromCart string
  | ClearCart string

fun cart_call_db :: "database \<Rightarrow> string \<Rightarrow> string \<Rightarrow> cart_call \<Rightarrow> database" where
  "cart_call_db db uuid now (CreateCart sessionId) = snd (createCart db uuid now sessionId)"
| "cart_call_db db uuid now (FindCartBySessionId sessionId) = db"
| "cart_call_db db uuid now (GetCartWithItems sessionId) = db"
| "cart_call_db db uuid now (AddToCart cartId productId quantity) =
     snd (addToCart db uuid now cartId productId quantity)"
| "cart_call_db db uuid now (UpdateCartItem itemId quantity) =
     snd (updateCartItem db now itemId quantity)"
| "cart_call_db db uuid now (RemoveFromCart itemId) = snd (removeFromCart db itemId)"
| "cart_call_db db uuid now (ClearCart cartId) = snd (clearCart db cartId)"

text \<open>
  A sequence of \<open>addToCart\<close> calls for one (cart, product) pair, one after the other;
  each call comes with the identifier and the time it would draw, and its quantity.
\<close>

fun addToCart_seq ::
  "database \<Rightarrow> string \<Rightarrow> string \<Rightarrow> (string \<times> string \<times> int) list \<Rightarrow> database" where
  "addToCart_seq db cartId productId [] = db"
| "addToCart_seq db cartId productId ((uuid, now, quantity) # calls) =
     addToCart_seq (snd (addToCart db uuid now cartId productId quantity)) cartId productId calls"

definition pair_rows :: "database \<Rightarrow> string \<Rightarrow> string \<Rightarrow> cart_item_row list" where
  "pair_rows db cartId productId =
     filter (\<lambda>r. ci_cart_id r = cartId \<and> ci_product_id r = productId) (cart_items db)"

definition pair_unique :: "database \<Rightarrow> bool" where
  "pair_unique db = distinct (map (\<lambda>r. (ci_cart_id r, ci_product_id r)) (cart_items db))"

section \<open>Request bodies and their validation\<close>

text \<open>
  A parsed JSON body. An object is the list of its members as written; a repeated key
  reads as its last occurrence, as \<open>JSON.parse\<close> does.
\<close>

datatype json =
  JNull
  | JBool bool
  | JNum real
  | JStr string
  | JArr "json list"
  | JObj "(string \<times> json) list"

definition json_member :: "(string \<times> json) list \<Rightarrow> string \<Rightarrow> json option" where
  "json_member kvs k = map_of (rev kvs) k"

text \<open>A validation issue is the field it is about and the code of the failed check.\<close>

datatype zod_code = invalid_type | too_small | too_big | invalid_string

type_synonym zod_issue = "string \<times> zod_code"

definition issues :: "zod_issue list + 'a \<Rightarrow> zod_issue list" where
  "issues r = (case r of Inl is \<Rightarrow> is | Inr _ \<Rightarrow> [])"

text \<open>\<open>z.string().min(1)\<close>\<close>

definition string_min1 :: "string \<Rightarrow> json option \<Rightarrow> zod_issue list + string" where
  "string_min1 field v =
     (case v of
        Some (JStr s) \<Rightarrow> if length s < 1 then Inl [(field, too_small)] else Inr s
      | _ \<Rightarrow> Inl [(field, invalid_type)])"

text \<open>\<open>z.number().int().min(1).max(100)\<close>: every failed check reports its issue.\<close>

definition quantity_1_100 :: "json option \<Rightarrow> zod_issue list + int" where
  "quantity_1_100 v =
     (case v of
        Some (JNum x) \<Rightarrow>
          (let found = (if x = real_of_int \<lfloor>x\<rfloor> then [] else [(''quantity'', invalid_type)])
                       @ (if x < 1 then [(''quantity'', too_small)] else [])
                       @ (if 100 < x then [(''quantity'', too_big)] else [])
           in if found = [] then Inr \<lfloor>x\<rfloor> else Inl found)
      | _ \<Rightarrow> Inl [(''quantity'', invalid_type)])"

definition createCartSchema :: "json \<Rightarrow> zod_issue list + string" where
  "createCartSchema body =
     (case body of
        JObj kvs \<Rightarrow> string_min1 ''sessionId'' (json_member kvs ''sessionId'')
      | _ \<Rightarrow> Inl [([], invalid_type)])"

definition addToCartSchema :: "json \<Rightarrow> zod_issue list + string \<times> int" where
  "addToCartSchema body =
     (case body of
        JObj kvs \<Rightarrow>
          (case (string_min1 ''productId'' (json_member kvs ''productId''),
                 quantity_1_100 (json_member kvs ''quantity'')) of
             (Inr productId, Inr quantity) \<Rightarrow> Inr (productId, quantity)
           | (p, q) \<Rightarrow> Inl (issues p @ issues q))
      | _ \<Rightarrow> Inl [([], invalid_type)])"

definition updateCartItemSchema :: "json \<Rightarrow> zod_issue list + int" where
  "updateCartItemSchema body =
     (case body of
        JObj kvs \<Rightarrow> quantity_1_100 (json_member kvs ''quantity'')
      | _ \<Rightarrow> Inl [([], invalid_type)])"

section \<open>The HTTP facade of the cart\<close>

text \<open>
  A response is a status and a JSON body. The Portuguese messages are written without
  their accents. The body of a request is \<open>None\<close> when \<open>c.req.json()\<close> throws.
\<close>

datatype body =
  ErrorJson string
  | InvalidJson string "zod_issue list"
  | CartJson cart_json
  | ItemJson cart_item_row
  | SuccessJson bool
  | ProductJson product_row
  | ImageJson product_image_row
  | ImagesJson "product_image_row list"
  | Undefined
  | NoContent

record response =
  status :: nat
  body :: body

definition json_response :: "body \<Rightarrow> nat \<Rightarrow> response" where
  "json_response b code = \<lparr>status = code, body = b\<rparr>"

definition post_cart ::
  "database \<Rightarrow> string \<Rightarrow> string \<Rightarrow> json option \<Rightarrow> response \<times> database" where
  "post_cart db uuid now req =
     (case req of
        None \<Rightarrow> (json_response (ErrorJson ''Erro interno do servidor'') 500, db)
      | Some b \<Rightarrow>
          (case createCartSchema b of
             Inl details \<Rightarrow> (json_response (InvalidJson ''Dados invalidos'' details) 400, db)
           | Inr sessionId \<Rightarrow>
               (case getCartWithItems db sessionId of
                  Some cart \<Rightarrow> (json_response (CartJson cart) 201, db)
                | None \<Rightarrow>
                    (case createCart db uuid now sessionId of
                       (Inr cart, db') \<Rightarrow> (json_response (CartJson cart) 201, db')
                     | (Inl e, db') \<Rightarrow>
                         (json_response (ErrorJson ''Erro interno do servidor'') 500, db')))))"

definition get_cart ::
  "database \<Rightarrow> string \<Rightarrow> string \<Rightarrow> string \<Rightarrow> response \<times> database" where
  "get_cart db uuid now sessionId =
     (case getCartWithItems db sessionId of
        Some cart \<Rightarrow> (json_response (CartJson cart) 200, db)
      | None \<Rightarrow>
          (case createCart db uuid now sessionId of
             (Inr created, db') \<Rightarrow> (json_response (CartJson created) 200, db')
           | (Inl e, db') \<Rightarrow> (json_response (ErrorJson ''Erro interno do servidor'') 500, db')))"

definition post_cart_items ::
  "database \<Rightarrow> string \<Rightarrow> string \<Rightarrow> string \<Rightarrow> json option \<Rightarrow> response \<times> database" where
  "post_cart_items db uuid now cartId req =
     (case req of
        None \<Rightarrow> (json_response (ErrorJson ''Erro interno do servidor'') 500, db)
      | Some b \<Rightarrow>
          (case addToCartSchema b of
             Inl details \<Rightarrow> (json_response (InvalidJson ''Dados invalidos'' details) 400, db)
           | Inr (productId, quantity) \<Rightarrow>
               (case addToCart db uuid now cartId productId quantity of
                  (Inr item, db') \<Rightarrow> (json_response (ItemJson item) 201, db')
                | (Inl e, db') \<Rightarrow>
                    (json_response (ErrorJson ''Erro interno do servidor'') 500, db'))))"

definition put_cart_item ::
  "database \<Rightarrow> string \<Rightarrow> string \<Rightarrow> json option \<Rightarrow> response \<times> database" where
  "put_cart_item db now itemId req =
     (case req of
        None \<Rightarrow> (json_response (ErrorJson ''Erro interno do servidor'') 500, db)
      | Some b \<Rightarrow>
          (case updateCartItemSchema b of
             Inl details \<Rightarrow> (json_response (InvalidJson ''Dados invalidos'' details) 400, db)
           | Inr quantity \<Rightarrow>
               (case updateCartItem db now itemId quantity of
                  (None, db') \<Rightarrow> (json_response (ErrorJson ''Item nao encontrado'') 404, db')
                | (Some item, db') \<Rightarrow> (json_response (ItemJson item) 200, db'))))"

definition delete_cart_item :: "database \<Rightarrow> string \<Rightarrow> response \<times> database" where
  "delete_cart_item db itemId =
     (case removeFromCart db itemId of (result, db') \<Rightarrow> (json_response (SuccessJson result) 200, db'))"

definition delete_cart :: "database \<Rightarrow> string \<Rightarrow> response \<times> database" where
  "delete_cart db cartId =
     (case clearCart db cartId of (result, db') \<Rightarrow> (json_response (SuccessJson result) 200, db'))"

text \<open>The cart routes, and a run of requests handled one after the other.\<close>

datatype cart_request =
  POST_cart "json option"
  | GET_cart string
  | POST_cart_items string "json option"
  | PUT_cart_item string "json option"
  | DELETE_cart_item string
  | DELETE_cart string

fun cart_route :: "database \<Rightarrow> string \<Rightarrow> string \<Rightarrow> cart_request \<Rightarrow> response \<times> database" where
  "cart_route db uuid now (POST_cart req) = post_cart db uuid now req"
| "cart_route db uuid now (GET_cart sessionId) = get_cart db uuid now sessionId"
| "cart_route db uuid now (POST_cart_items cartId req) = post_cart_items db uuid now cartId req"
| "cart_route db uuid now (PUT_cart_item itemId req) = put_cart_item db now itemId req"
| "cart_route db uuid now (DELETE_cart_item itemId) = delete_cart_item db itemId"
| "cart_route db uuid now (DELETE_cart cartId) = delete_cart db cartId"

fun cart_requests :: "database \<Rightarrow> (string \<times> string \<times> cart_request) list \<Rightarrow> database" where
  "cart_requests db [] = db"
| "cart_requests db ((uuid, now, req) # reqs) = cart_requests (snd (cart_route db uuid now req)) reqs"

section \<open>The products router\<close>

record product_data =
  pd_name :: string
  pd_description :: string
  pd_price :: real
  pd_sku :: string

text \<open>\<open>z.number().positive()\<close>\<close>

definition number_positive :: "string \<Rightarrow> json option \<Rightarrow> zod_issue list + real" where
  "number_positive field v =
     (case v of
        Some (JNum x) \<Rightarrow> if 0 < x then Inr x else Inl [(field, too_small)]
      | _ \<Rightarrow> Inl [(field, invalid_type)])"

definition updateProductSchema :: "json \<Rightarrow> zod_issue list + product_data" where
  "updateProductSchema input =
     (case input of
        JObj kvs \<Rightarrow>
          (case (string_min1 ''name'' (json_member kvs ''name''),
                 string_min1 ''description'' (json_member kvs ''description''),
                 number_positive ''price'' (json_member kvs ''price''),
                 string_min1 ''sku'' (json_member kvs ''sku'')) of
             (Inr n, Inr d, Inr p, Inr s) \<Rightarrow>
               Inr \<lparr>pd_name = n, pd_description = d, pd_price = p, pd_sku = s\<rparr>
           | (n, d, p, s) \<Rightarrow> Inl (issues n @ issues d @ issues p @ issues s))
      | _ \<Rightarrow> Inl [([], invalid_type)])"

text \<open>
  The router runs prepared statements that \<open>getStatements()\<close> of \<open>db.ts\<close> returns;
  it only calls them. The four it needs here are read off the product operations of
  the specification and off the schema that the router's tests mirror, where \<open>id\<close> is
  the primary key of both tables, \<open>sku\<close> is \<open>UNIQUE\<close> and an image references its
  product.
\<close>

text \<open>
  Modelled from the spec: the statement \<open>getProductById\<close> of \<open>db.ts\<close>. "Get by id:
  returns the product or a not-found condition."
\<close>

definition getProductById :: "database \<Rightarrow> string \<Rightarrow> product_row option" where
  "getProductById db pid = find (\<lambda>p. p_id p = pid) (products db)"

text \<open>
  Modelled from the spec: the statement \<open>getProductBySku\<close> of \<open>db.ts\<close>, the lookup
  behind "rejects with a duplicate SKU condition if the SKU already exists".
\<close>

definition getProductBySku :: "database \<Rightarrow> string \<Rightarrow> product_row option" where
  "getProductBySku db sku = find (\<lambda>p. p_sku p = sku) (products db)"

text \<open>
  Modelled from the spec: the statement \<open>updateProduct\<close> of \<open>db.ts\<close>. "Full replace of
  name/description/price/SKU; identifier and creation timestamp are immutable"; the
  SKU is unique, so the statement throws when it would give the row the SKU of another
  row.
\<close>

definition updateProduct ::
  "database \<Rightarrow> string \<Rightarrow> product_data \<Rightarrow> sql_error option \<times> database" where
  "updateProduct db pid d =
     (if (\<exists>p \<in> set (products db). p_id p = pid)
         \<and> (\<exists>q \<in> set (products db). p_id q \<noteq> pid \<and> p_sku q = pd_sku d)
      then (Some SQLITE_CONSTRAINT_UNIQUE, db)
      else
        (None,
         db\<lparr>products :=
              map (\<lambda>p. if p_id p = pid
                        then p\<lparr>p_name := pd_name d, p_description := pd_description d,
                               p_price := pd_price d, p_sku := pd_sku d\<rparr>
                        else p)
                  (products db)\<rparr>))"

text \<open>
  Modelled from the spec: the statement \<open>insertProductImage\<close> of \<open>db.ts\<close>. "Each
  accepted URL or file produces one ProductImage row", owned by one product; the
  statement throws on an identifier already used and, where foreign keys are
  enforced, on a product that does not exist.
\<close>

definition insertProductImage ::
  "database \<Rightarrow> product_image_row \<Rightarrow> sql_error option \<times> database" where
  "insertProductImage db img =
     (if pi_id img \<in> set (map pi_id (product_images db))
      then (Some SQLITE_CONSTRAINT_PRIMARYKEY, db)
      else if foreign_keys db \<and> pi_productId img \<notin> set (map p_id (products db))
      then (Some SQLITE_CONSTRAINT_FOREIGNKEY, db)
      else (None, db\<lparr>product_images := product_images db @ [img]\<rparr>))"

text \<open>\<open>PUT /api/products/:id\<close>\<close>

definition put_product :: "database \<Rightarrow> string \<Rightarrow> json option \<Rightarrow> response \<times> database" where
  "put_product db pid req =
     (case req of
        None \<Rightarrow> (json_response (ErrorJson ''Internal server error'') 500, db)
      | Some b \<Rightarrow>
          (case updateProductSchema b of
             Inl details \<Rightarrow> (json_response (InvalidJson ''Validation failed'' details) 400, db)
           | Inr d \<Rightarrow>
               (case getProductById db pid of
                  None \<Rightarrow> (json_response (ErrorJson ''Product not found'') 404, db)
                | Some existingProduct \<Rightarrow>
                    (if pd_sku d \<noteq> p_sku existingProduct \<and> getProductBySku db (pd_sku d) \<noteq> None
                     then (json_response (ErrorJson ''SKU already exists'') 400, db)
                     else
                       (case updateProduct db pid d of
                          (Some e, db') \<Rightarrow>
                            (json_response (ErrorJson ''Internal server error'') 500, db')
                        | (None, db') \<Rightarrow>
                            (case getProductById db' pid of
                               Some updatedProduct \<Rightarrow>
                                 (json_response (ProductJson updatedProduct) 200, db')
                             | None \<Rightarrow> (json_response Undefined 200, db')))))))"

text \<open>
  \<open>POST /api/products/:id/images\<close>. The request is its \<open>content-type\<close> header, its
  body read as JSON and its body read as form data (\<open>None\<close> where that read throws).
  A form value is a string or a file (name and contents). Files are written to a store
  of contents by path below the working directory; creating directories and a failing
  write are left out. \<open>gen k\<close> is what the k-th insert and file name draw: the image
  identifier and the prefix made of \<open>Date.now()\<close> and \<open>Math.random()\<close>. Whether a
  string is a URL is decided by the validation library: \<open>is_url\<close> is a parameter.
\<close>

datatype form_value = FormString string | FormFile string string

record image_request =
  content_type :: "string option"
  json_body :: "json option"
  form_data :: "(string \<times> form_value) list option"

type_synonym uploads = "(string \<times> string) list"

fun str_includes :: "string \<Rightarrow> string \<Rightarrow> bool" where
  "str_includes [] pat = (pat = [])"
| "str_includes (c # s) pat = (take (length pat) (c # s) = pat \<or> str_includes s pat)"

definition getAll :: "(string \<times> form_value) list \<Rightarrow> string \<Rightarrow> form_value list" where
  "getAll form name = map snd (filter (\<lambda>e. fst e = name) form)"

definition insertImage ::
  "database \<Rightarrow> string \<Rightarrow> string \<Rightarrow> string \<Rightarrow> string \<Rightarrow> int
     \<Rightarrow> (sql_error + product_image_row) \<times> database" where
  "insertImage db uuid createdAt pid url position =
     (let img = \<lparr>pi_id = uuid, pi_productId = pid, pi_url = url, pi_position = position,
                   pi_createdAt = createdAt\<rparr>
      in case insertProductImage db img of
           (Some e, db') \<Rightarrow> (Inl e, db')
         | (None, db') \<Rightarrow> (Inr img, db'))"

text \<open>\<open>z.object({url: z.string().url(), position: z.number().int().min(0).optional()})\<close>\<close>

definition position_optional :: "json option \<Rightarrow> zod_issue list + int option" where
  "position_optional v =
     (case v of
        None \<Rightarrow> Inr None
      | Some (JNum x) \<Rightarrow>
          (let found = (if x = real_of_int \<lfloor>x\<rfloor> then [] else [(''position'', invalid_type)])
                       @ (if x < 0 then [(''position'', too_small)] else [])
           in if found = [] then Inr (Some \<lfloor>x\<rfloor>) else Inl found)
      | _ \<Rightarrow> Inl [(''position'', invalid_type)])"

definition addImageByUrlSchema ::
  "(string \<Rightarrow> bool) \<Rightarrow> json \<Rightarrow> zod_issue list + string \<times> int option" where
  "addImageByUrlSchema is_url input =
     (case input of
        JObj kvs \<Rightarrow>
          (case ((case json_member kvs ''url'' of
                    Some (JStr s) \<Rightarrow> if is_url s then Inr s else Inl [(''url'', invalid_string)]
                  | _ \<Rightarrow> Inl [(''url'', invalid_type)]),
                 position_optional (json_member kvs ''position'')) of
             (Inr url, Inr position) \<Rightarrow> Inr (url, position)
           | (u, p) \<Rightarrow> Inl (issues u @ issues p))
      | _ \<Rightarrow> Inl [([], invalid_type)])"

text \<open>\<open>origName.replace(/[^a-zA-Z0-9_.-]/g, '_')\<close>\<close>

definition safe_char :: "char \<Rightarrow> char" where
  "safe_char c =
     (if (CHR ''a'' \<le> c \<and> c \<le> CHR ''z'') \<or> (CHR ''A'' \<le> c \<and> c \<le> CHR ''Z'')
         \<or> (CHR ''0'' \<le> c \<and> c \<le> CHR ''9'') \<or> c = CHR ''_'' \<or> c = CHR ''.'' \<or> c = CHR ''-''
      then c else CHR ''_'')"

text \<open>
  The loop over the form values of the field \<open>images\<close>: a value that is not a file is
  skipped; a file is written, its row inserted and the row collected.
\<close>

fun save_files ::
  "database \<Rightarrow> uploads \<Rightarrow> string \<Rightarrow> string \<Rightarrow> (nat \<Rightarrow> string \<times> string) \<Rightarrow> nat
     \<Rightarrow> form_value list \<Rightarrow> product_image_row list
     \<Rightarrow> (sql_error + product_image_row list) \<times> database \<times> uploads" where
  "save_files db fs pid createdAt gen k [] savedImages = (Inr savedImages, db, fs)"
| "save_files db fs pid createdAt gen k (FormString v # files) savedImages =
     save_files db fs pid createdAt gen k files savedImages"
| "save_files db fs pid createdAt gen k (FormFile name contents # files) savedImages =
     (let origName = (if name = [] then ''image'' else name);
          safeName = map safe_char origName;
          uniqueName = snd (gen k) @ ''_'' @ safeName;
          filepath = ''uploads/products/'' @ pid @ ''/'' @ uniqueName;
          fs' = (filepath, contents) # fs;
          publicUrl = ''/uploads/products/'' @ pid @ ''/'' @ uniqueName
      in case insertImage db (fst (gen k)) createdAt pid publicUrl 0 of
           (Inl e, db') \<Rightarrow> (Inl e, db', fs')
         | (Inr img, db') \<Rightarrow>
             save_files db' fs' pid createdAt gen (Suc k) files (savedImages @ [img]))"

definition post_images ::
  "(string \<Rightarrow> bool) \<Rightarrow> database \<Rightarrow> uploads \<Rightarrow> (nat \<Rightarrow> string \<times> string) \<Rightarrow> string \<Rightarrow> string
     \<Rightarrow> image_request \<Rightarrow> response \<times> database \<times> uploads" where
  \<open>post_images is_url db fs gen createdAt pid req =
     (case getProductById db pid of
        None \<Rightarrow> (json_response (ErrorJson ''Product not found'') 404, db, fs)
      | Some product \<Rightarrow>
          (let contentType = (case content_type req of None \<Rightarrow> [] | Some h \<Rightarrow> h)
           in if str_includes contentType ''application/json'' then
                (case json_body req of
                   None \<Rightarrow> (json_response (ErrorJson ''Internal server error'') 500, db, fs)
                 | Some b \<Rightarrow>
                     (case addImageByUrlSchema is_url b of
                        Inl details \<Rightarrow>
                          (json_response (InvalidJson ''Validation failed'' details) 400, db, fs)
                      | Inr (url, position) \<Rightarrow>
                          (case insertImage db (fst (gen 0)) createdAt pid url
                                  (case position of None \<Rightarrow> 0 | Some n \<Rightarrow> n) of
                             (Inl e, db') \<Rightarrow>
                               (json_response (ErrorJson ''Internal server error'') 500, db', fs)
                           | (Inr img, db') \<Rightarrow> (json_response (ImageJson img) 201, db', fs))))
              else if str_includes contentType ''multipart/form-data'' then
                (case form_data req of
                   None \<Rightarrow> (json_response (ErrorJson ''Internal server error'') 500, db, fs)
                 | Some formData \<Rightarrow>
                     (let files = getAll formData ''images''
                      in if length files = 0
                         then (json_response
                                 (ErrorJson ''No files provided. Use field name "images".'') 400,
                               db, fs)
                         else
                           (case save_files db fs pid createdAt gen 0 files [] of
                              (Inl e, db', fs') \<Rightarrow>
                                (json_response (ErrorJson ''Internal server error'') 500, db', fs')
                            | (Inr savedImages, db', fs') \<Rightarrow>
                                (json_response (ImagesJson savedImages) 201, db', fs'))))
              else (json_response (ErrorJson ''Unsupported Content-Type'') 415, db, fs)))\<close>

section \<open>Example stores\<close>

text \<open>
  A store with one product and one cart of session \<open>s1\<close>, foreign keys enforced, and the
  same store on a connection that does not enforce them.
\<close>

definition shop :: database where
  "shop =
     \<lparr>products = [\<lparr>p_id = ''p1'', p_name = ''Notebook'', p_description = ''Ultrabook'',
                    p_price = 10, p_sku = ''A1'', p_createdAt = ''2024-01-01T00:00:00.000Z''\<rparr>],
      product_images = [],
      carts = [\<lparr>c_id = ''c1'', c_session_id = ''s1'',
                 c_created_at = ''2024-01-02T00:00:00.000Z'',
                 c_updated_at = ''2024-01-02T00:00:00.000Z''\<rparr>],
      cart_items = [],
      foreign_keys = True\<rparr>"

definition shop_unchecked :: database where
  "shop_unchecked = shop\<lparr>foreign_keys := False\<rparr>"

text \<open>
  The scenario of the specification: two units of the product are added to the cart,
  then the product is repriced from 10 to 15 under its own SKU.
\<close>

definition same_sku_update :: "(string \<times> json) list" where
  "same_sku_update =
     [(''name'', JStr ''Notebook Pro''), (''description'', JStr ''New text''),
      (''price'', JNum 15), (''sku'', JStr ''A1'')]"

definition scenario :: database where
  "scenario =
     snd (put_product
            (snd (addToCart shop ''i1'' ''2024-01-03T00:00:00.000Z'' ''c1'' ''p1'' 2))
            ''p1'' (Some (JObj same_sku_update)))"

text \<open>A cart with two items, of two products.\<close>

definition basket :: database where
  "basket =
     shop\<lparr>products := products shop
             @ [\<lparr>p_id = ''p2'', p_name = ''Mouse'', p_description = ''Wireless'',
                 p_price = 4, p_sku = ''B2'', p_createdAt = ''2024-01-01T00:00:00.000Z''\<rparr>],
          cart_items :=
            [\<lparr>ci_id = ''i1'', ci_cart_id = ''c1'', ci_product_id = ''p1'', ci_quantity = 2,
              ci_created_at = ''2024-01-03T00:00:00.000Z'',
              ci_updated_at = ''2024-01-03T00:00:00.000Z''\<rparr>,
             \<lparr>ci_id = ''i2'', ci_cart_id = ''c1'', ci_product_id = ''p2'', ci_quantity = 5,
              ci_created_at = ''2024-01-03T00:01:00.000Z'',
              ci_updated_at = ''2024-01-03T00:01:00.000Z''\<rparr>]\<rparr>"

text \<open>
  The same cart after the first product is repriced from 10 to 15, and the cart that
  session \<open>s1\<close> then reads: 2 units at 15 and 5 units at 4.
\<close>

definition repriced_basket :: database where
  "repriced_basket = snd (put_product basket ''p1'' (Some (JObj same_sku_update)))"

definition repriced_cart :: cart_json where
  "repriced_cart =
     \<lparr>cj_id = ''c1'', cj_sessionId = ''s1'',
      cj_createdAt = ''2024-01-02T00:00:00.000Z'', cj_updatedAt = ''2024-01-02T00:00:00.000Z'',
      cj_items =
        [\<lparr>ij_id = ''i1'', ij_cartId = ''c1'', ij_productId = Some ''p1'', ij_quantity = 2,
          ij_createdAt = ''2024-01-03T00:00:00.000Z'', ij_updatedAt = ''2024-01-03T00:00:00.000Z'',
          ij_product =
            \<lparr>pj_id = Some ''p1'', pj_name = Some ''Notebook Pro'',
             pj_description = Some ''New text'', pj_price = Some 15, pj_sku = Some ''A1'',
             pj_imageUrl = None\<rparr>\<rparr>,
         \<lparr>ij_id = ''i2'', ij_cartId = ''c1'', ij_productId = Some ''p2'', ij_quantity = 5,
          ij_createdAt = ''2024-01-03T00:01:00.000Z'', ij_updatedAt = ''2024-01-03T00:01:00.000Z'',
          ij_product =
            \<lparr>pj_id = Some ''p2'', pj_name = Some ''Mouse'',
             pj_description = Some ''Wireless'', pj_price = Some 4, pj_sku = Some ''B2'',
             pj_imageUrl = None\<rparr>\<rparr>],
      cj_totalItems = 7, cj_totalPrice = 50\<rparr>"

text \<open>
  A cart with three units of a product whose price is 0.1, that is, the double
  nearest to one tenth.
\<close>

definition tenth_basket :: database where
  "tenth_basket =
     shop\<lparr>products :=
            [\<lparr>p_id = ''p1'', p_name = ''Pencil'', p_description = ''Graphite'',
              p_price = 3602879701896397 / 36028797018963968, p_sku = ''A1'',
              p_createdAt = ''2024-01-01T00:00:00.000Z''\<rparr>],
          cart_items :=
            [\<lparr>ci_id = ''i1'', ci_cart_id = ''c1'', ci_product_id = ''p1'', ci_quantity = 3,
              ci_created_at = ''2024-01-03T00:00:00.000Z'',
              ci_updated_at = ''2024-01-03T00:00:00.000Z''\<rparr>]\<rparr>"

text \<open>
  A session with two carts: the service creates a cart for \<open>s1\<close>, an item is added to
  it, and the service creates a second cart for \<open>s1\<close> a day later.
\<close>

definition two_carts :: database where
  "two_carts =
     snd (createCart
            (snd (addToCart
                    (snd (createCart (shop\<lparr>carts := []\<rparr>)
                            ''c_old'' ''2024-01-01T10:00:00.000Z'' ''s1''))
                    ''i1'' ''2024-01-01T10:05:00.000Z'' ''c_old'' ''p1'' 2))
            ''c_new'' ''2024-01-02T09:00:00.000Z'' ''s1'')"

text \<open>Request bodies: the largest valid quantity, and a product no row has.\<close>

definition add_100 :: "json option" where
  "add_100 = Some (JObj [(''productId'', JStr ''p1''), (''quantity'', JNum 100)])"

definition ghost_request :: "json option" where
  "ghost_request = Some (JObj [(''productId'', JStr ''ghost''), (''quantity'', JNum 1)])"

text \<open>A multipart upload whose field \<open>images\<close> carries a text value and no file.\<close>

definition text_field_upload :: image_request where
  "text_field_upload =
     \<lparr>content_type = Some ''multipart/form-data; boundary=----x'',
      json_body = None,
      form_data = Some [(''images'', FormString ''hello'')]\<rparr>"

text \<open>Every stored quantity lies between two bounds.\<close>

definition quantities_within :: "int \<Rightarrow> int \<Rightarrow> database \<Rightarrow> bool" where
  "quantities_within lo hi db =
     list_all (\<lambda>r. lo \<le> ci_quantity r \<and> ci_quantity r \<le> hi) (cart_items db)"

text \<open>No value of the form is a file.\<close>

fun no_file :: "form_value list \<Rightarrow> bool" where
  "no_file [] = True"
| "no_file (FormString v # files) = no_file files"
| "no_file (FormFile name contents # files) = False"

section \<open>Properties of the cart service\<close>

lemma find_filter_hd:
  "find P xs = (case filter P xs of [] \<Rightarrow> None | x # _ \<Rightarrow> Some x)"
  by (induction xs) auto

lemma find_None_filter: "find P xs = None \<longleftrightarrow> filter P xs = []"
  by (simp add: find_filter_hd split: list.splits)

subsection \<open>One row per cart and product\<close>

lemma pair_key_update:
  "(\<lambda>r. (ci_cart_id r, ci_product_id r))
     \<circ> (\<lambda>r. if P r then r\<lparr>ci_quantity := g r, ci_updated_at := now\<rparr> else r)
   = (\<lambda>r. (ci_cart_id r, ci_product_id r))"
  by (auto simp: fun_eq_iff)

lemma pair_unique_addToCart:
  assumes "pair_unique db"
  shows "pair_unique (snd (addToCart db uuid now cartId productId quantity))"
proof (cases "find (\<lambda>r. ci_cart_id r = cartId \<and> ci_product_id r = productId) (cart_items db)")
  case None
  then have "\<forall>r \<in> set (cart_items db). \<not> (ci_cart_id r = cartId \<and> ci_product_id r = productId)"
    by (simp add: find_None_iff)
  then have "(cartId, productId) \<notin> set (map (\<lambda>r. (ci_cart_id r, ci_product_id r)) (cart_items db))"
    by auto
  with assms None show ?thesis
    by (simp add: addToCart_def pair_unique_def Let_def)
next
  case (Some e)
  with assms show ?thesis
    by (simp add: addToCart_def pair_unique_def pair_key_update)
qed

lemma pair_unique_updateCartItem:
  assumes "pair_unique db"
  shows "pair_unique (snd (updateCartItem db now itemId quantity))"
  using assms by (simp add: updateCartItem_def pair_unique_def Let_def pair_key_update)

lemma pair_unique_filter:
  "pair_unique db \<Longrightarrow> pair_unique (db\<lparr>cart_items := filter P (cart_items db)\<rparr>)"
  by (simp add: pair_unique_def distinct_map_filter)

lemma pair_rows_existing:
  assumes "pair_rows db c p = [r]"
  shows "pair_rows (snd (addToCart db uuid now c p q)) c p
         = [r\<lparr>ci_quantity := ci_quantity r + q, ci_updated_at := now\<rparr>]"
proof -
  let ?P = "\<lambda>r. ci_cart_id r = c \<and> ci_product_id r = p"
  let ?f = "\<lambda>x. if ci_id x = ci_id r
                 then x\<lparr>ci_quantity := ci_quantity x + q, ci_updated_at := now\<rparr> else x"
  from assms have found: "find ?P (cart_items db) = Some r"
    by (simp add: pair_rows_def find_filter_hd)
  have keep: "?P \<circ> ?f = ?P"
    by (auto simp: fun_eq_iff)
  have "filter ?P (map ?f (cart_items db)) = map ?f (filter ?P (cart_items db))"
    by (simp add: filter_map keep)
  also have "\<dots> = [?f r]"
    using assms by (simp add: pair_rows_def)
  finally show ?thesis
    using found by (simp add: addToCart_def pair_rows_def)
qed

lemma pair_rows_inserted:
  assumes "pair_rows db c p = []"
    and "uuid \<notin> set (map ci_id (cart_items db))"
    and "foreign_keys db \<longrightarrow> c \<in> set (map c_id (carts db)) \<and> p \<in> set (map p_id (products db))"
  shows "pair_rows (snd (addToCart db uuid now c p q)) c p
         = [\<lparr>ci_id = uuid, ci_cart_id = c, ci_product_id = p, ci_quantity = q,
             ci_created_at = now, ci_updated_at = now\<rparr>]"
proof -
  from assms(1) have "find (\<lambda>r. ci_cart_id r = c \<and> ci_product_id r = p) (cart_items db) = None"
    by (simp add: pair_rows_def find_None_filter)
  with assms show ?thesis
    by (auto simp: addToCart_def pair_rows_def Let_def)
qed

lemma pair_rows_rejected:
  assumes "pair_rows db c p = []"
    and "uuid \<in> set (map ci_id (cart_items db))
         \<or> (foreign_keys db
            \<and> (c \<notin> set (map c_id (carts db)) \<or> p \<notin> set (map p_id (products db))))"
  shows "snd (addToCart db uuid now c p q) = db"
proof -
  from assms(1) have "find (\<lambda>r. ci_cart_id r = c \<and> ci_product_id r = p) (cart_items db) = None"
    by (simp add: pair_rows_def find_None_filter)
  with assms(2) show ?thesis
    by (auto simp: addToCart_def)
qed

lemma filter_distinct_key:
  "distinct (map key xs) \<Longrightarrow> x \<in> set xs \<Longrightarrow> filter (\<lambda>y. key y = key x) xs = [x]"
proof (induction xs)
  case Nil
  then show ?case by simp
next
  case (Cons a xs)
  show ?case
  proof (cases "x = a")
    case True
    from Cons.prems(1) have "key a \<notin> key ` set xs"
      by simp
    then have "\<forall>y \<in> set xs. key y \<noteq> key a"
      by (metis imageI)
    then have "filter (\<lambda>y. key y = key a) xs = []"
      by (simp add: filter_empty_conv)
    with True show ?thesis by simp
  next
    case False
    with Cons.prems have "x \<in> set xs" and "key a \<notin> key ` set xs"
      by simp_all
    then have "x \<in> set xs" and "key a \<noteq> key x"
      by (simp, metis imageI)
    with Cons show ?thesis by simp
  qed
qed

lemma pair_unique_single:
  assumes "pair_unique db" and "r \<in> set (pair_rows db c p)"
  shows "pair_rows db c p = [r]"
proof -
  from assms(2) have r: "r \<in> set (cart_items db)" and key: "ci_cart_id r = c" "ci_product_id r = p"
    by (simp_all add: pair_rows_def)
  from assms(1) r
  have "filter (\<lambda>y. (ci_cart_id y, ci_product_id y) = (ci_cart_id r, ci_product_id r))
          (cart_items db) = [r]"
    unfolding pair_unique_def by (rule filter_distinct_key)
  with key show ?thesis
    by (simp add: pair_rows_def)
qed

lemma addToCart_existing_length:
  assumes "pair_rows db c p = [r]"
  shows "length (cart_items (snd (addToCart db uuid now c p q))) = length (cart_items db)"
proof -
  from assms have "find (\<lambda>r. ci_cart_id r = c \<and> ci_product_id r = p) (cart_items db) = Some r"
    by (simp add: pair_rows_def find_filter_hd)
  then show ?thesis
    by (simp add: addToCart_def)
qed

text \<open>
  C5. Every operation of the cart service keeps the invariant that a (cart, product)
  pair has at most one row in \<open>cart_items\<close>: whatever the call and its arguments, a
  store that has the invariant before the call has it after. And \<open>addToCart\<close> on a
  pair that has a row updates that row and inserts none: the table keeps its length,
  and the pair's one row is the row as it was with the quantity raised by the given
  amount and the update time set to that of the call.
\<close>

theorem cart_service_keeps_pair_unique:
  assumes "pair_unique db"
  shows "pair_unique (cart_call_db db uuid now call)
         \<and> (\<forall>r \<in> set (pair_rows db cartId productId).
               pair_rows db cartId productId = [r]
               \<and> length (cart_items (snd (addToCart db uuid now cartId productId quantity)))
                   = length (cart_items db)
               \<and> pair_rows (snd (addToCart db uuid now cartId productId quantity))
                     cartId productId
                   = [r\<lparr>ci_quantity := ci_quantity r + quantity, ci_updated_at := now\<rparr>])"
proof
  show "pair_unique (cart_call_db db uuid now call)"
  proof (cases call)
    case (CreateCart sessionId)
    with assms show ?thesis by (simp add: createCart_def pair_unique_def)
  next
    case (FindCartBySessionId sessionId)
    with assms show ?thesis by simp
  next
    case (GetCartWithItems sessionId)
    with assms show ?thesis by simp
  next
    case (AddToCart c p q)
    with assms show ?thesis by (simp add: pair_unique_addToCart)
  next
    case (UpdateCartItem itemId q)
    with assms show ?thesis by (simp add: pair_unique_updateCartItem)
  next
    case (RemoveFromCart itemId)
    with assms show ?thesis by (simp add: removeFromCart_def pair_unique_filter)
  next
    case (ClearCart c)
    with assms show ?thesis by (simp add: clearCart_def pair_unique_filter)
  qed
next
  show "\<forall>r \<in> set (pair_rows db cartId productId).
          pair_rows db cartId productId = [r]
          \<and> length (cart_items (snd (addToCart db uuid now cartId productId quantity)))
              = length (cart_items db)
          \<and> pair_rows (snd (addToCart db uuid now cartId productId quantity)) cartId productId
              = [r\<lparr>ci_quantity := ci_quantity r + quantity, ci_updated_at := now\<rparr>]"
  proof
    fix r
    assume "r \<in> set (pair_rows db cartId productId)"
    with assms have single: "pair_rows db cartId productId = [r]"
      by (rule pair_unique_single)
    from single addToCart_existing_length [OF single] pair_rows_existing [OF single]
    show "pair_rows db cartId productId = [r]
          \<and> length (cart_items (snd (addToCart db uuid now cartId productId quantity)))
              = length (cart_items db)
          \<and> pair_rows (snd (addToCart db uuid now cartId productId quantity)) cartId productId
              = [r\<lparr>ci_quantity := ci_quantity r + quantity, ci_updated_at := now\<rparr>]"
      by simp
  qed
qed

theorem cart_service_keeps_pair_unique_witness:
  "pair_unique basket
   \<and> pair_rows basket ''c1'' ''p1''
       = [\<lparr>ci_id = ''i1'', ci_cart_id = ''c1'', ci_product_id = ''p1'', ci_quantity = 2,
           ci_created_at = ''2024-01-03T00:00:00.000Z'',
           ci_updated_at = ''2024-01-03T00:00:00.000Z''\<rparr>]
   \<and> pair_unique (cart_call_db basket ''i9'' ''2024-01-04T00:00:00.000Z''
                     (AddToCart ''c1'' ''p1'' 3))
   \<and> length (cart_items (snd (addToCart basket ''i9'' ''2024-01-04T00:00:00.000Z''
                                 ''c1'' ''p1'' 3))) = 2
   \<and> pair_rows (snd (addToCart basket ''i9'' ''2024-01-04T00:00:00.000Z'' ''c1'' ''p1'' 3))
         ''c1'' ''p1''
       = [\<lparr>ci_id = ''i1'', ci_cart_id = ''c1'', ci_product_id = ''p1'', ci_quantity = 5,
           ci_created_at = ''2024-01-03T00:00:00.000Z'',
           ci_updated_at = ''2024-01-04T00:00:00.000Z''\<rparr>]"
proof -
  have h: "pair_unique basket"
    by (simp add: basket_def shop_def pair_unique_def)
  have rows: "pair_rows basket ''c1'' ''p1''
       = [\<lparr>ci_id = ''i1'', ci_cart_id = ''c1'', ci_product_id = ''p1'', ci_quantity = 2,
           ci_created_at = ''2024-01-03T00:00:00.000Z'',
           ci_updated_at = ''2024-01-03T00:00:00.000Z''\<rparr>]"
    by (simp add: basket_def shop_def pair_rows_def)
  have len: "length (cart_items basket) = 2"
    by (simp add: basket_def)
  from cart_service_keeps_pair_unique [OF h, of "''i9''" "''2024-01-04T00:00:00.000Z''"
      "AddToCart ''c1'' ''p1'' 3" "''c1''" "''p1''" 3]
  show ?thesis
    using h rows len by simp
qed

subsection \<open>Repeated additions add up\<close>

lemma addToCart_seq_existing:
  "pair_rows db c p = [r] \<Longrightarrow>
   map ci_quantity (pair_rows (addToCart_seq db c p calls) c p)
   = [ci_quantity r + sum_list (map (\<lambda>(uuid, now, q). q) calls)]"
proof (induction calls arbitrary: db r)
  case Nil
  then show ?case by simp
next
  case (Cons call calls)
  obtain uuid now q where call: "call = (uuid, now, q)"
    by (cases call) auto
  from Cons.prems
  have "pair_rows (snd (addToCart db uuid now c p q)) c p
        = [r\<lparr>ci_quantity := ci_quantity r + q, ci_updated_at := now\<rparr>]"
    by (rule pair_rows_existing)
  from Cons.IH [OF this] show ?case
    by (simp add: call)
qed

text \<open>
  C1. A sequence of \<open>addToCart\<close> calls with quantities \<open>q1 .. qn\<close>, run one after the
  other for one (cart, product) pair that has no row yet, leaves exactly one row for
  the pair, and its quantity is \<open>q1 + ... + qn\<close>. The first call inserts, so it has to
  draw an identifier no row uses and, on a connection that enforces foreign keys, the
  cart and the product have to exist; the later calls find the row and add to it.
\<close>

theorem addToCart_seq_sum:
  assumes "pair_rows db cartId productId = []"
    and "uuid \<notin> set (map ci_id (cart_items db))"
    and "foreign_keys db \<longrightarrow>
           cartId \<in> set (map c_id (carts db)) \<and> productId \<in> set (map p_id (products db))"
  shows "map ci_quantity
           (pair_rows (addToCart_seq db cartId productId ((uuid, now, q) # calls)) cartId productId)
         = [q + sum_list (map (\<lambda>(uuid, now, q). q) calls)]"
proof -
  have "pair_rows (snd (addToCart db uuid now cartId productId q)) cartId productId
        = [\<lparr>ci_id = uuid, ci_cart_id = cartId, ci_product_id = productId, ci_quantity = q,
            ci_created_at = now, ci_updated_at = now\<rparr>]"
    using assms by (rule pair_rows_inserted)
  from addToCart_seq_existing [OF this] show ?thesis
    by simp
qed

theorem addToCart_seq_sum_witness:
  "pair_rows shop ''c1'' ''p1'' = []
   \<and> ''i1'' \<notin> set (map ci_id (cart_items shop))
   \<and> foreign_keys shop
   \<and> ''c1'' \<in> set (map c_id (carts shop))
   \<and> ''p1'' \<in> set (map p_id (products shop))
   \<and> map ci_quantity
        (pair_rows (addToCart_seq shop ''c1'' ''p1''
           [(''i1'', ''t1'', 2), (''i2'', ''t2'', 3), (''i3'', ''t3'', 100)]) ''c1'' ''p1'')
      = [105]"
  using addToCart_seq_sum [of shop "''c1''" "''p1''" "''i1''" "''t1''" 2
      "[(''i2'', ''t2'', 3), (''i3'', ''t3'', 100)]"]
  by (simp add: shop_def pair_rows_def)

subsection \<open>What an update of a quantity touches\<close>

text \<open>
  C10. \<open>updateCartItem\<close> changes only the quantity and the update time of the rows with
  the given identifier: the other tables are as before, \<open>cart_items\<close> has the same
  length, every row keeps its identifier, cart, product and creation time, a row with
  the identifier has the new quantity and the time of the call, and every other row
  is unchanged.
\<close>

theorem updateCartItem_frame:
  "products (snd (updateCartItem db now itemId quantity)) = products db
   \<and> product_images (snd (updateCartItem db now itemId quantity)) = product_images db
   \<and> carts (snd (updateCartItem db now itemId quantity)) = carts db
   \<and> foreign_keys (snd (updateCartItem db now itemId quantity)) = foreign_keys db
   \<and> length (cart_items (snd (updateCartItem db now itemId quantity))) = length (cart_items db)
   \<and> (\<forall>k < length (cart_items db).
         ci_id (cart_items (snd (updateCartItem db now itemId quantity)) ! k)
           = ci_id (cart_items db ! k)
         \<and> ci_cart_id (cart_items (snd (updateCartItem db now itemId quantity)) ! k)
             = ci_cart_id (cart_items db ! k)
         \<and> ci_product_id (cart_items (snd (updateCartItem db now itemId quantity)) ! k)
             = ci_product_id (cart_items db ! k)
         \<and> ci_created_at (cart_items (snd (updateCartItem db now itemId quantity)) ! k)
             = ci_created_at (cart_items db ! k)
         \<and> (if ci_id (cart_items db ! k) = itemId
             then ci_quantity (cart_items (snd (updateCartItem db now itemId quantity)) ! k)
                    = quantity
                  \<and> ci_updated_at (cart_items (snd (updateCartItem db now itemId quantity)) ! k)
                      = now
             else cart_items (snd (updateCartItem db now itemId quantity)) ! k
                  = cart_items db ! k))"
  by (simp add: updateCartItem_def Let_def)

theorem updateCartItem_frame_witness:
  "(1::nat) < length (cart_items basket)
   \<and> ci_id (cart_items basket ! 1) = ''i2''
   \<and> cart_items (snd (updateCartItem basket ''2024-01-04T00:00:00.000Z'' ''i2'' 9)) ! 0
       = cart_items basket ! 0
   \<and> cart_items (snd (updateCartItem basket ''2024-01-04T00:00:00.000Z'' ''i2'' 9)) ! 1
       = \<lparr>ci_id = ''i2'', ci_cart_id = ''c1'', ci_product_id = ''p2'', ci_quantity = 9,
          ci_created_at = ''2024-01-03T00:01:00.000Z'',
          ci_updated_at = ''2024-01-04T00:00:00.000Z''\<rparr>"
  using updateCartItem_frame [of basket "''2024-01-04T00:00:00.000Z''" "''i2''" 9]
  by (simp add: basket_def shop_def updateCartItem_def)

subsection \<open>Clearing a cart\<close>

text \<open>
  C9. \<open>DELETE /api/cart/:cartId\<close> answers 200 with the success marker for every cart
  identifier, whether a cart row has it or not, and never a not-found error. It deletes
  exactly the rows of \<open>cart_items\<close> with that cart identifier: what remains are the
  rows of the other carts, unchanged and in their order, and no other table changes.
\<close>

theorem delete_cart_succeeds:
  "fst (delete_cart db cartId) = \<lparr>status = 200, body = SuccessJson True\<rparr>
   \<and> cart_items (snd (delete_cart db cartId))
       = filter (\<lambda>r. ci_cart_id r \<noteq> cartId) (cart_items db)
   \<and> carts (snd (delete_cart db cartId)) = carts db
   \<and> products (snd (delete_cart db cartId)) = products db
   \<and> product_images (snd (delete_cart db cartId)) = product_images db
   \<and> foreign_keys (snd (delete_cart db cartId)) = foreign_keys db"
  by (simp add: delete_cart_def clearCart_def json_response_def)

subsection \<open>Reading a cart with its items\<close>

lemma set_insort_by: "set (insort_by le x xs) = insert x (set xs)"
  by (induction xs) auto

lemma set_order_by: "set (order_by le xs) = set xs"
  by (induction xs) (simp_all add: order_by_def set_insort_by)

lemma foldl_plus_sum_list:
  fixes a :: "'a::monoid_add"
  shows "foldl (\<lambda>sum x. sum + f x) a xs = a + sum_list (map f xs)"
  by (induction xs arbitrary: a) (simp_all add: add.assoc)

lemma find_distinct_id:
  "distinct (map p_id ps) \<Longrightarrow> p \<in> set ps \<Longrightarrow> find (\<lambda>x. p_id x = p_id p) ps = Some p"
  by (induction ps) (auto simp: image_iff)

lemma join_products_row:
  assumes "distinct (map p_id (products db))" and "r \<in> set (join_products db c ci)"
  shows "jr_item r = Some ci
         \<and> jr_product r = find (\<lambda>p. p_id p = ci_product_id ci) (products db)"
proof (cases "filter (\<lambda>p. p_id p = ci_product_id ci) (products db)")
  case Nil
  then have "find (\<lambda>p. p_id p = ci_product_id ci) (products db) = None"
    by (simp add: find_None_filter)
  with assms(2) Nil show ?thesis
    by (simp add: join_products_def)
next
  case (Cons p ps)
  with assms(2) obtain x where x: "x \<in> set (filter (\<lambda>p. p_id p = ci_product_id ci) (products db))"
    and r: "r = \<lparr>jr_cart = c, jr_item = Some ci, jr_product = Some x,
                 jr_image_url = first_image_url db (p_id x)\<rparr>"
    by (auto simp: join_products_def)
  from x have "x \<in> set (products db)" and "p_id x = ci_product_id ci"
    by auto
  with assms(1) have "find (\<lambda>p. p_id p = ci_product_id ci) (products db) = Some x"
    using find_distinct_id by fastforce
  with r show ?thesis
    by simp
qed

lemma join_products_cart: "r \<in> set (join_products db c ci) \<Longrightarrow> jr_cart r = c"
  by (auto simp: join_products_def split: list.splits)

lemma join_products_nonempty: "join_products db c ci \<noteq> []"
  by (simp add: join_products_def split: list.splits)

lemma join_items_cart: "r \<in> set (join_items db c) \<Longrightarrow> jr_cart r = c"
  by (auto simp: join_items_def join_products_cart split: list.splits)

lemma join_items_nonempty: "join_items db c \<noteq> []"
  by (simp add: join_items_def join_products_nonempty split: list.splits)

lemma join_items_row:
  assumes "distinct (map p_id (products db))" and "r \<in> set (join_items db c)"
    and "jr_item r = Some ci"
  shows "ci \<in> set (cart_items db)
         \<and> jr_product r = find (\<lambda>p. p_id p = ci_product_id ci) (products db)"
proof (cases "filter (\<lambda>ci. ci_cart_id ci = c_id c) (cart_items db)")
  case Nil
  with assms(2,3) show ?thesis
    by (simp add: join_items_def)
next
  case (Cons x xs)
  with assms(2) obtain y where y: "y \<in> set (filter (\<lambda>ci. ci_cart_id ci = c_id c) (cart_items db))"
    and r: "r \<in> set (join_products db c y)"
    by (auto simp: join_items_def)
  from join_products_row [OF assms(1) r] assms(3) have "y = ci"
    and "jr_product r = find (\<lambda>p. p_id p = ci_product_id ci) (products db)"
    by auto
  with y show ?thesis by auto
qed

lemma cart_rows_row:
  assumes "distinct (map p_id (products db))" and "r \<in> set (cart_rows db sessionId)"
    and "jr_item r = Some ci"
  shows "ci \<in> set (cart_items db)
         \<and> jr_product r = find (\<lambda>p. p_id p = ci_product_id ci) (products db)"
proof -
  from assms(2) obtain c where "r \<in> set (join_items db c)"
    by (auto simp: cart_rows_def set_order_by)
  from join_items_row [OF assms(1) this assms(3)] show ?thesis .
qed

lemma cart_rows_session:
  assumes "r \<in> set (cart_rows db sessionId)"
  shows "c_session_id (jr_cart r) = sessionId"
proof -
  from assms obtain c where "c_session_id c = sessionId" and "r \<in> set (join_items db c)"
    by (auto simp: cart_rows_def set_order_by)
  then show ?thesis
    by (simp add: join_items_cart)
qed

lemma cart_rows_nonempty:
  assumes "c \<in> set (carts db)" and "c_session_id c = sessionId"
  shows "cart_rows db sessionId \<noteq> []"
proof -
  obtain r where "r \<in> set (join_items db c)"
    using join_items_nonempty [of db c] by (cases "join_items db c") auto
  with assms have "r \<in> set (cart_rows db sessionId)"
    by (auto simp: cart_rows_def set_order_by)
  then show ?thesis by auto
qed

lemma row_items_item:
  assumes "it \<in> set (row_items rows)"
  shows "\<exists>r \<in> set rows. \<exists>ci. jr_item r = Some ci \<and> it = row_item r ci"
proof -
  from assms obtain r where "r \<in> set rows"
    and "it \<in> set (case jr_item r of None \<Rightarrow> [] | Some ci \<Rightarrow> [row_item r ci])"
    by (auto simp: row_items_def)
  then show ?thesis
    by (cases "jr_item r") auto
qed

lemma scenario_eq:
  "scenario =
     \<lparr>products = [\<lparr>p_id = ''p1'', p_name = ''Notebook Pro'', p_description = ''New text'',
                    p_price = 15, p_sku = ''A1'', p_createdAt = ''2024-01-01T00:00:00.000Z''\<rparr>],
      product_images = [],
      carts = [\<lparr>c_id = ''c1'', c_session_id = ''s1'',
                 c_created_at = ''2024-01-02T00:00:00.000Z'',
                 c_updated_at = ''2024-01-02T00:00:00.000Z''\<rparr>],
      cart_items = [\<lparr>ci_id = ''i1'', ci_cart_id = ''c1'', ci_product_id = ''p1'',
                      ci_quantity = 2, ci_created_at = ''2024-01-03T00:00:00.000Z'',
                      ci_updated_at = ''2024-01-03T00:00:00.000Z''\<rparr>],
      foreign_keys = True\<rparr>"
  by (simp add: scenario_def same_sku_update_def shop_def addToCart_def put_product_def
      updateProductSchema_def json_member_def string_min1_def number_positive_def
      getProductById_def getProductBySku_def updateProduct_def Let_def)

lemma repriced_basket_eq:
  "repriced_basket =
     \<lparr>products = [\<lparr>p_id = ''p1'', p_name = ''Notebook Pro'', p_description = ''New text'',
                    p_price = 15, p_sku = ''A1'', p_createdAt = ''2024-01-01T00:00:00.000Z''\<rparr>,
                  \<lparr>p_id = ''p2'', p_name = ''Mouse'', p_description = ''Wireless'',
                    p_price = 4, p_sku = ''B2'', p_createdAt = ''2024-01-01T00:00:00.000Z''\<rparr>],
      product_images = [],
      carts = [\<lparr>c_id = ''c1'', c_session_id = ''s1'',
                 c_created_at = ''2024-01-02T00:00:00.000Z'',
                 c_updated_at = ''2024-01-02T00:00:00.000Z''\<rparr>],
      cart_items =
        [\<lparr>ci_id = ''i1'', ci_cart_id = ''c1'', ci_product_id = ''p1'', ci_quantity = 2,
          ci_created_at = ''2024-01-03T00:00:00.000Z'',
          ci_updated_at = ''2024-01-03T00:00:00.000Z''\<rparr>,
         \<lparr>ci_id = ''i2'', ci_cart_id = ''c1'', ci_product_id = ''p2'', ci_quantity = 5,
          ci_created_at = ''2024-01-03T00:01:00.000Z'',
          ci_updated_at = ''2024-01-03T00:01:00.000Z''\<rparr>],
      foreign_keys = True\<rparr>"
  by (simp add: repriced_basket_def basket_def same_sku_update_def shop_def put_product_def
      updateProductSchema_def json_member_def string_min1_def number_positive_def
      getProductById_def getProductBySku_def updateProduct_def Let_def)

text \<open>
  Integer prices and quantities of this size are doubles, and their products and sums
  are exact; a price such as 0.1 is not, and three units of it cost
  0.30000000000000004.
\<close>

lemma number_of_int_2: "number_of_int 2 = 2"
  by code_simp

lemma number_of_int_5: "number_of_int 5 = 5"
  by code_simp

lemma js_mul_10_2: "js_mul 10 2 = 20"
  by code_simp

lemma js_mul_15_2: "js_mul 15 2 = 30"
  by code_simp

lemma js_mul_4_5: "js_mul 4 5 = 20"
  by code_simp

lemma js_add_0_20: "js_add 0 20 = 20"
  by code_simp

lemma js_add_0_30: "js_add 0 30 = 30"
  by code_simp

lemma js_add_30_20: "js_add 30 20 = 50"
  by code_simp

lemma to_double_tenth: "to_double (1 / 10) = 3602879701896397 / 36028797018963968"
  by code_simp

lemma js_mul_tenth_3:
  "js_mul (3602879701896397 / 36028797018963968) (number_of_int 3)
   = 1351079888211149 / 4503599627370496"
  by code_simp

lemma js_add_0_tenth_3:
  "js_add 0 (1351079888211149 / 4503599627370496) = 1351079888211149 / 4503599627370496"
  by code_simp

lemma getCartWithItems_tenth:
  "map_option cj_totalPrice (getCartWithItems tenth_basket ''s1'')
   = Some (1351079888211149 / 4503599627370496)"
  by (simp add: tenth_basket_def shop_def getCartWithItems_def cart_rows_def
      join_items_def join_products_def order_by_def row_items_def has_item_def row_item_def
      item_price_def first_image_url_def Let_def js_mul_tenth_3 js_add_0_tenth_3)

text \<open>
  C4. For a session with a stored cart (and product identifiers unique, as the
  primary key has them), \<open>getCartWithItems\<close> returns a cart of that session whose
  \<open>totalItems\<close> is the sum of the quantities of the returned items and whose
  \<open>totalPrice\<close> is the sum, over the returned items in their order, of the item's
  price times its quantity, multiplied and added as the code does it, in JavaScript
  numbers. Every returned item carries the quantity of a stored cart item, and its
  price is the price that the product row of that item holds in the store at the time
  of the read (no price when the product row is gone, which counts as 0). Nothing of
  a price is stored with the item, so a product repriced after the item was added is
  totalled at its new price.
\<close>

theorem getCartWithItems_totals:
  assumes "distinct (map p_id (products db))"
    and "c \<in> set (carts db)" and "c_session_id c = sessionId"
  shows "\<exists>cart. getCartWithItems db sessionId = Some cart
           \<and> cj_sessionId cart = sessionId
           \<and> cj_totalItems cart = sum_list (map ij_quantity (cj_items cart))
           \<and> cj_totalPrice cart
               = js_sum (map (\<lambda>it. js_mul (item_price it) (number_of_int (ij_quantity it)))
                             (cj_items cart))
           \<and> (\<forall>it \<in> set (cj_items cart).
                 \<exists>ci \<in> set (cart_items db).
                   ij_id it = ci_id ci \<and> ij_quantity it = ci_quantity ci
                   \<and> pj_price (ij_product it)
                       = map_option p_price
                           (find (\<lambda>p. p_id p = ci_product_id ci) (products db)))"
proof -
  from cart_rows_nonempty [OF assms(2,3)]
  obtain base rest where rows: "cart_rows db sessionId = base # rest"
    by (cases "cart_rows db sessionId") auto
  define cart where "cart =
       \<lparr>cj_id = c_id (jr_cart base), cj_sessionId = c_session_id (jr_cart base),
        cj_createdAt = c_created_at (jr_cart base), cj_updatedAt = c_updated_at (jr_cart base),
        cj_items = row_items (base # rest),
        cj_totalItems = foldl (\<lambda>sum it. sum + ij_quantity it) 0 (row_items (base # rest)),
        cj_totalPrice =
          foldl (\<lambda>sum it. js_add sum (js_mul (item_price it) (number_of_int (ij_quantity it))))
                0 (row_items (base # rest))\<rparr>"
  have result: "getCartWithItems db sessionId = Some cart"
    by (simp add: getCartWithItems_def rows cart_def Let_def)
  have session: "cj_sessionId cart = sessionId"
    using cart_rows_session [of base db sessionId] by (simp add: cart_def rows)
  have items: "cj_items cart = row_items (cart_rows db sessionId)"
    by (simp add: cart_def rows)
  have count: "cj_totalItems cart = sum_list (map ij_quantity (cj_items cart))"
    by (simp add: cart_def foldl_plus_sum_list)
  have price: "cj_totalPrice cart
               = js_sum (map (\<lambda>it. js_mul (item_price it) (number_of_int (ij_quantity it)))
                             (cj_items cart))"
    by (simp add: cart_def js_sum_def foldl_map)
  have current: "\<exists>ci \<in> set (cart_items db).
          ij_id it = ci_id ci \<and> ij_quantity it = ci_quantity ci
          \<and> pj_price (ij_product it)
              = map_option p_price (find (\<lambda>p. p_id p = ci_product_id ci) (products db))"
    if "it \<in> set (cj_items cart)" for it
  proof -
    from that items obtain r ci where r: "r \<in> set (cart_rows db sessionId)"
      and ci: "jr_item r = Some ci" and it: "it = row_item r ci"
      using row_items_item by metis
    from cart_rows_row [OF assms(1) r ci] show ?thesis
      by (auto simp: it row_item_def)
  qed
  from result session count price current show ?thesis
    by blast
qed

theorem getCartWithItems_totals_witness:
  "distinct (map p_id (products repriced_basket))
   \<and> hd (carts repriced_basket) \<in> set (carts repriced_basket)
   \<and> c_session_id (hd (carts repriced_basket)) = ''s1''
   \<and> map p_price (products basket) = [10, 4]
   \<and> map p_price (products repriced_basket) = [15, 4]
   \<and> getCartWithItems repriced_basket ''s1'' = Some repriced_cart
   \<and> map ij_quantity (cj_items repriced_cart) = [2, 5]
   \<and> map item_price (cj_items repriced_cart) = [15, 4]
   \<and> cj_totalItems repriced_cart = 7
   \<and> cj_totalPrice repriced_cart = 50
   \<and> js_sum (map (\<lambda>it. js_mul (item_price it) (number_of_int (ij_quantity it)))
                  (cj_items repriced_cart)) = 50"
proof -
  have a: "distinct (map p_id (products repriced_basket))"
    by (simp add: repriced_basket_eq)
  have b: "hd (carts repriced_basket) \<in> set (carts repriced_basket)"
    by (simp add: repriced_basket_eq)
  have c: "c_session_id (hd (carts repriced_basket)) = ''s1''"
    by (simp add: repriced_basket_eq)
  have d: "getCartWithItems repriced_basket ''s1'' = Some repriced_cart"
    by (simp add: repriced_basket_eq repriced_cart_def getCartWithItems_def cart_rows_def
        join_items_def join_products_def order_by_def row_items_def has_item_def row_item_def
        item_price_def first_image_url_def row_before_def null_le_def Let_def
        number_of_int_2 number_of_int_5 js_mul_15_2 js_mul_4_5 js_add_0_30 js_add_30_20)
  from getCartWithItems_totals [OF a b c] d
  have "cj_totalPrice repriced_cart
        = js_sum (map (\<lambda>it. js_mul (item_price it) (number_of_int (ij_quantity it)))
                      (cj_items repriced_cart))"
    by simp
  moreover have "cj_totalPrice repriced_cart = 50" and "cj_totalItems repriced_cart = 7"
    and "map ij_quantity (cj_items repriced_cart) = [2, 5]"
    and "map item_price (cj_items repriced_cart) = [15, 4]"
    by (simp_all add: repriced_cart_def item_price_def)
  moreover have "map p_price (products basket) = [10, 4]"
    by (simp add: basket_def shop_def)
  ultimately show ?thesis
    using a b c d by (simp add: repriced_basket_eq)
qed

text \<open>
  C6, at a session with two carts. The service created \<open>c_old\<close>, an item was added to
  it, and the service created \<open>c_new\<close> a day later. \<open>getCartWithItems\<close> returns the
  identifier and timestamps of \<open>c_new\<close>, the most recent cart, but its item list holds
  the item of \<open>c_old\<close> (its \<open>cartId\<close> says so) and the totals count it: the rows of every
  cart of the session pass the filter, only the header is taken from the first row.
  \<open>findCartBySessionId\<close>, beside it, returns \<open>c_new\<close> alone.
\<close>

theorem getCartWithItems_other_cart_items:
  "getCartWithItems two_carts ''s1''
   = Some \<lparr>cj_id = ''c_new'', cj_sessionId = ''s1'',
           cj_createdAt = ''2024-01-02T09:00:00.000Z'',
           cj_updatedAt = ''2024-01-02T09:00:00.000Z'',
           cj_items =
             [\<lparr>ij_id = ''i1'', ij_cartId = ''c_old'', ij_productId = Some ''p1'',
               ij_quantity = 2, ij_createdAt = ''2024-01-01T10:05:00.000Z'',
               ij_updatedAt = ''2024-01-01T10:05:00.000Z'',
               ij_product =
                 \<lparr>pj_id = Some ''p1'', pj_name = Some ''Notebook'',
                  pj_description = Some ''Ultrabook'', pj_price = Some 10,
                  pj_sku = Some ''A1'', pj_imageUrl = None\<rparr>\<rparr>],
           cj_totalItems = 2, cj_totalPrice = 20\<rparr>
   \<and> map c_id (carts two_carts) = [''c_old'', ''c_new'']
   \<and> map ci_cart_id (cart_items two_carts) = [''c_old'']
   \<and> map_option c_id (findCartBySessionId two_carts ''s1'') = Some ''c_new''"
  by (simp add: two_carts_def shop_def createCart_def addToCart_def getCartWithItems_def
      findCartBySessionId_def cart_rows_def join_items_def join_products_def order_by_def
      row_items_def has_item_def row_item_def item_price_def first_image_url_def
      row_before_def null_le_def Let_def number_of_int_2 js_mul_10_2 js_add_0_20)

section \<open>Properties of the cart routes\<close>

subsection \<open>Adding an item of an unknown product\<close>

lemma post_cart_items_status:
  "status (fst (post_cart_items db uuid now cartId req)) \<in> {201, 400, 500}"
  by (auto simp: post_cart_items_def json_response_def split: option.splits sum.splits prod.splits)

text \<open>
  C2, at a request that names a product no row has. \<open>POST /api/cart/:cartId/items\<close>
  validates the body and calls \<open>addToCart\<close>; it never looks the product up and has no
  not-found answer. On a connection that does not enforce foreign keys the request is
  answered 201 and a cart item of the unknown product is stored. On a connection that
  enforces them the insert throws and the answer is the generic 500.
\<close>

theorem post_cart_items_unknown_product:
  "''ghost'' \<notin> set (map p_id (products shop_unchecked))
   \<and> post_cart_items shop_unchecked ''i1'' ''2024-01-03T00:00:00.000Z'' ''c1'' ghost_request
       = (\<lparr>status = 201,
            body = ItemJson \<lparr>ci_id = ''i1'', ci_cart_id = ''c1'', ci_product_id = ''ghost'',
                     ci_quantity = 1, ci_created_at = ''2024-01-03T00:00:00.000Z'',
                     ci_updated_at = ''2024-01-03T00:00:00.000Z''\<rparr>\<rparr>,
          shop_unchecked\<lparr>cart_items :=
            [\<lparr>ci_id = ''i1'', ci_cart_id = ''c1'', ci_product_id = ''ghost'',
              ci_quantity = 1, ci_created_at = ''2024-01-03T00:00:00.000Z'',
              ci_updated_at = ''2024-01-03T00:00:00.000Z''\<rparr>]\<rparr>)
   \<and> ''ghost'' \<notin> set (map p_id (products shop))
   \<and> post_cart_items shop ''i1'' ''2024-01-03T00:00:00.000Z'' ''c1'' ghost_request
       = (\<lparr>status = 500, body = ErrorJson ''Erro interno do servidor''\<rparr>, shop)"
  by (simp add: ghost_request_def shop_unchecked_def shop_def post_cart_items_def
      addToCartSchema_def json_member_def string_min1_def quantity_1_100_def addToCart_def
      json_response_def Let_def)

subsection \<open>The range of a stored quantity\<close>

lemma quantity_1_100_range:
  assumes "quantity_1_100 v = Inr q"
  shows "1 \<le> q \<and> q \<le> 100"
proof -
  from assms obtain x where "v = Some (JNum x)" and "\<not> x < 1" and "\<not> 100 < x" and "q = \<lfloor>x\<rfloor>"
    by (auto simp: quantity_1_100_def Let_def split: option.splits json.splits if_splits)
  then show ?thesis
    by (simp add: le_floor_iff floor_le_iff)
qed

lemma addToCartSchema_range:
  "addToCartSchema b = Inr (p, q) \<Longrightarrow> 1 \<le> q \<and> q \<le> 100"
  by (auto simp: addToCartSchema_def split: json.splits sum.splits dest: quantity_1_100_range)

lemma updateCartItemSchema_range:
  "updateCartItemSchema b = Inr q \<Longrightarrow> 1 \<le> q \<and> q \<le> 100"
  by (auto simp: updateCartItemSchema_def split: json.splits dest: quantity_1_100_range)

lemma within_mono:
  "quantities_within lo hi db \<Longrightarrow> hi \<le> hi' \<Longrightarrow> cart_items db' = cart_items db
   \<Longrightarrow> quantities_within lo hi' db'"
  by (auto simp: quantities_within_def list_all_iff)

lemma within_filter:
  "quantities_within lo hi db \<Longrightarrow> hi \<le> hi'
   \<Longrightarrow> quantities_within lo hi' (db\<lparr>cart_items := filter P (cart_items db)\<rparr>)"
  by (auto simp: quantities_within_def list_all_iff)

lemma within_addToCart:
  assumes "quantities_within 1 hi db" and "0 \<le> hi" and "1 \<le> q" and "q \<le> 100"
  shows "quantities_within 1 (hi + 100) (snd (addToCart db uuid now c p q))"
  using assms
  by (auto simp: addToCart_def quantities_within_def list_all_iff Let_def split: option.splits)

lemma within_updateCartItem:
  assumes "quantities_within 1 hi db" and "0 \<le> hi" and "1 \<le> q" and "q \<le> 100"
  shows "quantities_within 1 (hi + 100) (snd (updateCartItem db now i q))"
  using assms
  by (auto simp: updateCartItem_def quantities_within_def list_all_iff Let_def)

lemma within_cart_route:
  assumes "quantities_within 1 hi db" and "0 \<le> hi"
  shows "quantities_within 1 (hi + 100) (snd (cart_route db uuid now req))"
proof (cases req)
  case (POST_cart b)
  have "cart_items (snd (post_cart db uuid now b)) = cart_items db"
    by (auto simp: post_cart_def createCart_def split: option.splits sum.splits prod.splits)
  with assms POST_cart show ?thesis
    using within_mono by fastforce
next
  case (GET_cart s)
  have "cart_items (snd (get_cart db uuid now s)) = cart_items db"
    by (auto simp: get_cart_def createCart_def split: option.splits sum.splits prod.splits)
  with assms GET_cart show ?thesis
    using within_mono by fastforce
next
  case (POST_cart_items c b)
  show ?thesis
  proof (cases "\<exists>input p q. b = Some input \<and> addToCartSchema input = Inr (p, q)")
    case True
    then obtain input p q where b: "b = Some input" and ok: "addToCartSchema input = Inr (p, q)"
      by blast
    from addToCartSchema_range [OF ok] assms
    have "quantities_within 1 (hi + 100) (snd (addToCart db uuid now c p q))"
      by (simp add: within_addToCart)
    moreover have "snd (post_cart_items db uuid now c b) = snd (addToCart db uuid now c p q)"
      by (simp add: post_cart_items_def b ok split: prod.splits sum.splits)
    ultimately show ?thesis
      by (simp add: POST_cart_items)
  next
    case False
    then have "snd (post_cart_items db uuid now c b) = db"
      by (auto simp: post_cart_items_def split: option.splits sum.splits)
    with assms POST_cart_items show ?thesis
      using within_mono by fastforce
  qed
next
  case (PUT_cart_item i b)
  show ?thesis
  proof (cases "\<exists>input q. b = Some input \<and> updateCartItemSchema input = Inr q")
    case True
    then obtain input q where b: "b = Some input" and ok: "updateCartItemSchema input = Inr q"
      by blast
    from updateCartItemSchema_range [OF ok] assms
    have "quantities_within 1 (hi + 100) (snd (updateCartItem db now i q))"
      by (simp add: within_updateCartItem)
    moreover have "snd (put_cart_item db now i b) = snd (updateCartItem db now i q)"
      by (simp add: put_cart_item_def b ok split: prod.splits option.splits)
    ultimately show ?thesis
      by (simp add: PUT_cart_item)
  next
    case False
    then have "snd (put_cart_item db now i b) = db"
      by (auto simp: put_cart_item_def split: option.splits sum.splits)
    with assms PUT_cart_item show ?thesis
      using within_mono by fastforce
  qed
next
  case (DELETE_cart_item i)
  with assms show ?thesis
    by (simp add: delete_cart_item_def removeFromCart_def within_filter)
next
  case (DELETE_cart c)
  with assms show ?thesis
    by (simp add: delete_cart_def clearCart_def within_filter)
qed

text \<open>
  C3 as stated fails: two valid requests, each adding 100 units of the same product to
  the same cart, leave a stored quantity of 200.
\<close>

theorem stored_quantity_exceeds_100:
  "addToCartSchema (the add_100) = Inr (''p1'', 100)
   \<and> map ci_quantity
        (cart_items
           (cart_requests shop
              [(''i1'', ''2024-01-03T00:00:00.000Z'', POST_cart_items ''c1'' add_100),
               (''i2'', ''2024-01-04T00:00:00.000Z'', POST_cart_items ''c1'' add_100)]))
      = [200]"
  by (simp add: add_100_def shop_def post_cart_items_def addToCartSchema_def json_member_def
      string_min1_def quantity_1_100_def addToCart_def Let_def)

lemma put_cart_item_valid:
  assumes "updateCartItemSchema input = Inr q"
  shows "cart_items (snd (put_cart_item db now itemId (Some input)))
         = map (\<lambda>r. if ci_id r = itemId then r\<lparr>ci_quantity := q, ci_updated_at := now\<rparr> else r)
               (cart_items db)"
  using assms
  by (simp add: put_cart_item_def updateCartItem_def Let_def split: option.splits)

lemma post_cart_items_valid:
  assumes "addToCartSchema input = Inr (productId, q)"
  shows "snd (post_cart_items db uuid now cartId (Some input))
         = snd (addToCart db uuid now cartId productId q)"
  using assms by (simp add: post_cart_items_def split: prod.splits sum.splits)

text \<open>
  C3, amended. Over every run of requests to the cart routes, whatever their bodies
  (a body that fails validation changes nothing), every stored quantity stays an
  integer of at least 1, and a request raises the largest stored quantity by at most
  100: from quantities between 1 and \<open>hi\<close>, a run of \<open>n\<close> requests leaves quantities
  between 1 and \<open>hi + 100 * n\<close>. The quantity of a request that passes validation is
  between 1 and 100, and it is what a row holds right after it is set or inserted: an
  update-item request sets the quantity of the rows with its identifier to exactly the
  request's quantity, and an add-item request for a pair without a row inserts a row
  with exactly the request's quantity (or none, when the insert is refused). An
  add-item request for a pair with a row raises that row's quantity by the request's
  quantity, whatever it was: the bound of 100 is one on each request, not on the
  stored quantity.
\<close>

theorem cart_requests_quantity_bounds:
  assumes "quantities_within 1 hi db" and "0 \<le> hi"
  shows "quantities_within 1 (hi + 100 * int (length reqs)) (cart_requests db reqs)
         \<and> (\<forall>input q.
               updateCartItemSchema input = Inr q \<longrightarrow>
               1 \<le> q \<and> q \<le> 100
               \<and> cart_items (snd (cart_route db uuid now (PUT_cart_item itemId (Some input))))
                   = map (\<lambda>r. if ci_id r = itemId
                              then r\<lparr>ci_quantity := q, ci_updated_at := now\<rparr> else r)
                         (cart_items db))
         \<and> (\<forall>input productId q.
               addToCartSchema input = Inr (productId, q) \<longrightarrow>
               1 \<le> q \<and> q \<le> 100
               \<and> (pair_rows db cartId productId = [] \<longrightarrow>
                    map ci_quantity
                      (pair_rows (snd (cart_route db uuid now (POST_cart_items cartId (Some input))))
                         cartId productId)
                    = (if uuid \<in> set (map ci_id (cart_items db))
                          \<or> (foreign_keys db
                             \<and> (cartId \<notin> set (map c_id (carts db))
                                \<or> productId \<notin> set (map p_id (products db))))
                       then [] else [q]))
               \<and> (\<forall>r. pair_rows db cartId productId = [r] \<longrightarrow>
                    map ci_quantity
                      (pair_rows (snd (cart_route db uuid now (POST_cart_items cartId (Some input))))
                         cartId productId)
                    = [ci_quantity r + q]))"
proof (intro conjI allI impI)
  show "quantities_within 1 (hi + 100 * int (length reqs)) (cart_requests db reqs)"
    using assms
  proof (induction reqs arbitrary: db hi)
    case Nil
    then show ?case by simp
  next
    case (Cons r reqs)
    obtain uuid now req where r: "r = (uuid, now, req)"
      by (cases r) auto
    from Cons.prems have "quantities_within 1 (hi + 100) (snd (cart_route db uuid now req))"
      by (rule within_cart_route)
    moreover from Cons.prems have "0 \<le> hi + 100" by simp
    ultimately have "quantities_within 1 (hi + 100 + 100 * int (length reqs))
                       (cart_requests (snd (cart_route db uuid now req)) reqs)"
      by (rule Cons.IH)
    then show ?case
      by (simp add: r algebra_simps)
  qed
next
  fix input q
  assume ok: "updateCartItemSchema input = Inr q"
  from updateCartItemSchema_range [OF ok] show "1 \<le> q" and "q \<le> 100"
    by simp_all
  from put_cart_item_valid [OF ok]
  show "cart_items (snd (cart_route db uuid now (PUT_cart_item itemId (Some input))))
        = map (\<lambda>r. if ci_id r = itemId then r\<lparr>ci_quantity := q, ci_updated_at := now\<rparr> else r)
              (cart_items db)"
    by simp
next
  fix input productId q
  assume ok: "addToCartSchema input = Inr (productId, q)"
  from addToCartSchema_range [OF ok] show "1 \<le> q" and "q \<le> 100"
    by simp_all
  have route: "snd (cart_route db uuid now (POST_cart_items cartId (Some input)))
               = snd (addToCart db uuid now cartId productId q)"
    using post_cart_items_valid [OF ok] by simp
  {
    assume absent: "pair_rows db cartId productId = []"
    show "map ci_quantity
            (pair_rows (snd (cart_route db uuid now (POST_cart_items cartId (Some input))))
               cartId productId)
          = (if uuid \<in> set (map ci_id (cart_items db))
                \<or> (foreign_keys db
                   \<and> (cartId \<notin> set (map c_id (carts db))
                      \<or> productId \<notin> set (map p_id (products db))))
             then [] else [q])"
    proof (cases "uuid \<in> set (map ci_id (cart_items db))
                  \<or> (foreign_keys db
                     \<and> (cartId \<notin> set (map c_id (carts db))
                        \<or> productId \<notin> set (map p_id (products db))))")
      case True
      with pair_rows_rejected [OF absent True] absent route show ?thesis
        by simp
    next
      case False
      then have "uuid \<notin> set (map ci_id (cart_items db))"
        and "foreign_keys db \<longrightarrow>
               cartId \<in> set (map c_id (carts db)) \<and> productId \<in> set (map p_id (products db))"
        by auto
      from pair_rows_inserted [OF absent this] False route show ?thesis
        by simp
    qed
  }
  {
    fix r
    assume "pair_rows db cartId productId = [r]"
    from pair_rows_existing [OF this] route
    show "map ci_quantity
            (pair_rows (snd (cart_route db uuid now (POST_cart_items cartId (Some input))))
               cartId productId)
          = [ci_quantity r + q]"
      by simp
  }
qed

theorem cart_requests_quantity_bounds_witness:
  "quantities_within 1 2 scenario
   \<and> (0::int) \<le> 2
   \<and> quantities_within 1 202
        (cart_requests scenario
           [(''i2'', ''2024-01-04T00:00:00.000Z'', POST_cart_items ''c1'' add_100),
            (''i3'', ''2024-01-05T00:00:00.000Z'', POST_cart_items ''c1'' add_100)])
   \<and> map ci_quantity
        (cart_items
           (cart_requests scenario
              [(''i2'', ''2024-01-04T00:00:00.000Z'', POST_cart_items ''c1'' add_100),
               (''i3'', ''2024-01-05T00:00:00.000Z'', POST_cart_items ''c1'' add_100)]))
      = [202]
   \<and> updateCartItemSchema (JObj [(''quantity'', JNum 7)]) = Inr 7
   \<and> map ci_quantity
        (cart_items
           (snd (cart_route scenario ''i2'' ''2024-01-04T00:00:00.000Z''
                   (PUT_cart_item ''i1'' (Some (JObj [(''quantity'', JNum 7)]))))))
      = [7]
   \<and> addToCartSchema (the add_100) = Inr (''p1'', 100)
   \<and> map ci_quantity (pair_rows scenario ''c1'' ''p1'') = [2]
   \<and> map ci_quantity
        (pair_rows
           (snd (cart_route scenario ''i2'' ''2024-01-04T00:00:00.000Z''
                   (POST_cart_items ''c1'' add_100)))
           ''c1'' ''p1'')
      = [102]"
proof -
  have h: "quantities_within 1 2 scenario"
    by (simp add: quantities_within_def scenario_eq)
  have run: "map ci_quantity
        (cart_items
           (cart_requests scenario
              [(''i2'', ''2024-01-04T00:00:00.000Z'', POST_cart_items ''c1'' add_100),
               (''i3'', ''2024-01-05T00:00:00.000Z'', POST_cart_items ''c1'' add_100)]))
      = [202]"
    by (simp add: add_100_def scenario_eq post_cart_items_def addToCartSchema_def json_member_def
      string_min1_def quantity_1_100_def addToCart_def Let_def)
  have put: "updateCartItemSchema (JObj [(''quantity'', JNum 7)]) = Inr 7"
    by (simp add: updateCartItemSchema_def json_member_def quantity_1_100_def)
  have add: "addToCartSchema (the add_100) = Inr (''p1'', 100)"
    by (simp add: add_100_def addToCartSchema_def json_member_def string_min1_def
        quantity_1_100_def)
  have rows: "pair_rows scenario ''c1'' ''p1''
              = [\<lparr>ci_id = ''i1'', ci_cart_id = ''c1'', ci_product_id = ''p1'',
                  ci_quantity = 2, ci_created_at = ''2024-01-03T00:00:00.000Z'',
                  ci_updated_at = ''2024-01-03T00:00:00.000Z''\<rparr>]"
    by (simp add: pair_rows_def scenario_eq)
  have some: "add_100 = Some (the add_100)"
    by (simp add: add_100_def)
  have z: "(0::int) \<le> 2"
    by simp
  note bounds = cart_requests_quantity_bounds [OF h z, of
      "[(''i2'', ''2024-01-04T00:00:00.000Z'', POST_cart_items ''c1'' add_100),
        (''i3'', ''2024-01-05T00:00:00.000Z'', POST_cart_items ''c1'' add_100)]"
      "''i2''" "''2024-01-04T00:00:00.000Z''" "''i1''" "''c1''"]
  from bounds have first: "quantities_within 1 202
        (cart_requests scenario
           [(''i2'', ''2024-01-04T00:00:00.000Z'', POST_cart_items ''c1'' add_100),
            (''i3'', ''2024-01-05T00:00:00.000Z'', POST_cart_items ''c1'' add_100)])"
    by simp
  note put_fact = bounds [THEN conjunct2, THEN conjunct1, rule_format, OF put]
  note add_fact = bounds [THEN conjunct2, THEN conjunct2, rule_format, OF add]
  from put_fact have second: "cart_items
           (snd (cart_route scenario ''i2'' ''2024-01-04T00:00:00.000Z''
                   (PUT_cart_item ''i1'' (Some (JObj [(''quantity'', JNum 7)])))))
         = map (\<lambda>r. if ci_id r = ''i1''
                    then r\<lparr>ci_quantity := 7, ci_updated_at := ''2024-01-04T00:00:00.000Z''\<rparr>
                    else r)
               (cart_items scenario)"
    by simp
  from add_fact [THEN conjunct2, THEN conjunct2, THEN conjunct2, rule_format, OF rows]
  have third: "map ci_quantity
        (pair_rows
           (snd (cart_route scenario ''i2'' ''2024-01-04T00:00:00.000Z''
                   (POST_cart_items ''c1'' (Some (the add_100)))))
           ''c1'' ''p1'')
      = [2 + 100]"
    by simp
  from h run put add rows first second third some show ?thesis
    by (simp add: scenario_eq)
qed

section \<open>Properties of the products router\<close>

subsection \<open>Updating a product under its own SKU\<close>

lemma find_map_same_id:
  assumes "\<And>p. p_id (f p) = p_id p"
  shows "find (\<lambda>p. p_id p = pid) (map f ps) = map_option f (find (\<lambda>p. p_id p = pid) ps)"
  by (induction ps) (simp_all add: assms)

lemma find_Some_set: "find P xs = Some x \<Longrightarrow> x \<in> set xs \<and> P x"
  by (induction xs) (auto split: if_splits)

lemma updateProductSchema_sku:
  assumes "updateProductSchema (JObj kvs) = Inr d"
  shows "json_member kvs ''sku'' = Some (JStr (pd_sku d))"
  using assms
  by (auto simp: updateProductSchema_def string_min1_def
      split: sum.splits option.splits json.splits if_splits)

lemma updateProduct_own_sku:
  assumes "distinct (map p_sku (products db))"
    and "getProductById db pid = Some existing"
    and "pd_sku d = p_sku existing"
  shows "updateProduct db pid d
         = (None,
            db\<lparr>products :=
                 map (\<lambda>p. if p_id p = pid
                           then p\<lparr>p_name := pd_name d, p_description := pd_description d,
                                  p_price := pd_price d, p_sku := pd_sku d\<rparr>
                           else p)
                     (products db)\<rparr>)"
proof -
  from assms(2) have ex: "existing \<in> set (products db)" and id: "p_id existing = pid"
    using find_Some_set [of "\<lambda>p. p_id p = pid" "products db" existing]
    by (simp_all add: getProductById_def)
  have "p_id q = pid" if "q \<in> set (products db)" and "p_sku q = pd_sku d" for q
  proof -
    from assms(1) have "inj_on p_sku (set (products db))"
      by (simp add: distinct_map)
    with that ex assms(3) have "q = existing"
      by (simp add: inj_on_def)
    with id show ?thesis by simp
  qed
  then show ?thesis
    by (auto simp: updateProduct_def)
qed

text \<open>
  C7. For an existing product, \<open>PUT /api/products/:id\<close> with a body whose \<open>sku\<close> is
  the product's own current SKU is never answered with the duplicate-SKU conflict,
  whatever the other fields are. When the body passes validation (and SKUs are unique
  in the store, as the schema has them), the answer is 200 with the product under its
  new name, description and price, and the store holds that row: identifier, SKU and
  creation timestamp are as before.
\<close>

theorem put_product_same_sku:
  assumes "getProductById db pid = Some existing"
    and "json_member kvs ''sku'' = Some (JStr (p_sku existing))"
  shows "fst (put_product db pid (Some (JObj kvs)))
           \<noteq> \<lparr>status = 400, body = ErrorJson ''SKU already exists''\<rparr>
         \<and> (distinct (map p_sku (products db)) \<longrightarrow>
              (\<forall>d. updateProductSchema (JObj kvs) = Inr d \<longrightarrow>
                 put_product db pid (Some (JObj kvs))
                 = (\<lparr>status = 200,
                      body = ProductJson
                               (existing\<lparr>p_name := pd_name d, p_description := pd_description d,
                                         p_price := pd_price d\<rparr>)\<rparr>,
                    db\<lparr>products :=
                         map (\<lambda>p. if p_id p = pid
                                   then p\<lparr>p_name := pd_name d, p_description := pd_description d,
                                          p_price := pd_price d, p_sku := p_sku existing\<rparr>
                                   else p)
                             (products db)\<rparr>)))"
proof (cases "updateProductSchema (JObj kvs)")
  case (Inl details)
  then show ?thesis
    by (simp add: put_product_def json_response_def)
next
  case (Inr d)
  from updateProductSchema_sku [OF Inr] assms(2) have sku: "pd_sku d = p_sku existing"
    by simp
  let ?f = "\<lambda>p. if p_id p = pid
                 then p\<lparr>p_name := pd_name d, p_description := pd_description d,
                        p_price := pd_price d, p_sku := pd_sku d\<rparr>
                 else p"
  from assms(1) have id: "p_id existing = pid"
    using find_Some_set [of "\<lambda>p. p_id p = pid" "products db" existing]
    by (simp add: getProductById_def)
  have first: "fst (put_product db pid (Some (JObj kvs)))
                 \<noteq> \<lparr>status = 400, body = ErrorJson ''SKU already exists''\<rparr>"
    using Inr assms(1) sku
    by (simp add: put_product_def json_response_def split: prod.splits option.splits)
  have second: "put_product db pid (Some (JObj kvs))
                = (\<lparr>status = 200, body = ProductJson (?f existing)\<rparr>,
                   db\<lparr>products := map ?f (products db)\<rparr>)"
    if "distinct (map p_sku (products db))"
  proof -
    have upd: "updateProduct db pid d = (None, db\<lparr>products := map ?f (products db)\<rparr>)"
      using that assms(1) sku by (rule updateProduct_own_sku)
    have "getProductById (db\<lparr>products := map ?f (products db)\<rparr>) pid = Some (?f existing)"
      using assms(1) by (simp add: getProductById_def find_map_same_id)
    with upd Inr assms(1) sku show ?thesis
      by (simp add: put_product_def json_response_def)
  qed
  from first second Inr id sku show ?thesis
    by simp
qed

theorem put_product_same_sku_witness:
  "getProductById shop ''p1'' = Some (hd (products shop))
   \<and> json_member same_sku_update ''sku'' = Some (JStr (p_sku (hd (products shop))))
   \<and> distinct (map p_sku (products shop))
   \<and> updateProductSchema (JObj same_sku_update)
       = Inr \<lparr>pd_name = ''Notebook Pro'', pd_description = ''New text'', pd_price = 15,
              pd_sku = ''A1''\<rparr>
   \<and> fst (put_product shop ''p1'' (Some (JObj same_sku_update)))
       = \<lparr>status = 200,
          body = ProductJson
                   \<lparr>p_id = ''p1'', p_name = ''Notebook Pro'', p_description = ''New text'',
                    p_price = 15, p_sku = ''A1'', p_createdAt = ''2024-01-01T00:00:00.000Z''\<rparr>\<rparr>"
proof -
  have a: "getProductById shop ''p1'' = Some (hd (products shop))"
    by (simp add: getProductById_def shop_def)
  have b: "json_member same_sku_update ''sku'' = Some (JStr (p_sku (hd (products shop))))"
    by (simp add: json_member_def same_sku_update_def shop_def)
  have c: "distinct (map p_sku (products shop))"
    by (simp add: shop_def)
  have d: "updateProductSchema (JObj same_sku_update)
       = Inr \<lparr>pd_name = ''Notebook Pro'', pd_description = ''New text'', pd_price = 15,
              pd_sku = ''A1''\<rparr>"
    by (simp add: updateProductSchema_def json_member_def same_sku_update_def string_min1_def
        number_positive_def)
  from put_product_same_sku [OF a b] c d
  have "put_product shop ''p1'' (Some (JObj same_sku_update))
        = (\<lparr>status = 200,
             body = ProductJson
               (hd (products shop)\<lparr>p_name := ''Notebook Pro'', p_description := ''New text'',
                                    p_price := 15\<rparr>)\<rparr>,
           shop\<lparr>products :=
                 map (\<lambda>p. if p_id p = ''p1''
                           then p\<lparr>p_name := ''Notebook Pro'', p_description := ''New text'',
                                  p_price := 15, p_sku := p_sku (hd (products shop))\<rparr>
                           else p)
                     (products shop)\<rparr>)"
    by simp
  then have "fst (put_product shop ''p1'' (Some (JObj same_sku_update)))
       = \<lparr>status = 200,
          body = ProductJson
                   \<lparr>p_id = ''p1'', p_name = ''Notebook Pro'', p_description = ''New text'',
                    p_price = 15, p_sku = ''A1'', p_createdAt = ''2024-01-01T00:00:00.000Z''\<rparr>\<rparr>"
    by (simp add: shop_def)
  with a b c d show ?thesis by simp
qed

subsection \<open>An upload without a file\<close>

lemma save_files_no_file:
  "no_file files \<Longrightarrow>
   save_files db fs pid createdAt gen k files savedImages = (Inr savedImages, db, fs)"
  by (induction files rule: no_file.induct) simp_all

lemma post_images_no_field:
  assumes "getProductById db pid = Some p"
    and "content_type req = Some h" and "\<not> str_includes h ''application/json''"
    and "str_includes h ''multipart/form-data''"
    and "form_data req = Some form" and "getAll form ''images'' = []"
  shows \<open>post_images is_url db fs gen createdAt pid req
         = (\<lparr>status = 400, body = ErrorJson ''No files provided. Use field name "images".''\<rparr>,
            db, fs)\<close>
  using assms by (simp add: post_images_def json_response_def Let_def)

lemma post_images_no_file:
  assumes "getProductById db pid = Some p"
    and "content_type req = Some h" and "\<not> str_includes h ''application/json''"
    and "str_includes h ''multipart/form-data''"
    and "form_data req = Some form" and "getAll form ''images'' \<noteq> []"
    and "no_file (getAll form ''images'')"
  shows "post_images is_url db fs gen createdAt pid req
         = (\<lparr>status = 201, body = ImagesJson []\<rparr>, db, fs)"
  using assms by (simp add: post_images_def json_response_def save_files_no_file Let_def)

text \<open>
  C8, at a multipart upload for an existing product whose field \<open>images\<close> holds a
  text value and no file. The list of values is not empty, so the "no files provided"
  answer is passed over; the loop skips the value; the answer is 201 with an empty
  list of images. No row is inserted and no file written.
\<close>

theorem post_images_text_field:
  "post_images is_url shop [] gen ''2024-01-03T00:00:00.000Z'' ''p1'' text_field_upload
   = (\<lparr>status = 201, body = ImagesJson []\<rparr>, shop, [])"
  by (simp add: text_field_upload_def shop_def post_images_def getProductById_def getAll_def
      json_response_def Let_def)

end
